theory Spec2Isabelle
  imports Complex_Main "HOL-Library.Sublist"
begin

section \<open>Python values, exceptions and floats\<close>

text \<open>
  The forecasting service is Python on top of pandas, NumPy, statsmodels and XGBoost.
  Exceptions are values: a computation that may raise returns \<open>exn + 'a\<close>, with
  \<open>Inl\<close> the exception. Every \<^verbatim>\<open>raise\<close> of the service has a constructor of its
  own; an exception that comes out of an external library call (requests, statsmodels,
  scikit-learn, xgboost) is \<open>External\<close>.

  \<^item> \<open>DatasetEmpty\<close>: \<^verbatim>\<open>ValueError("Dataset is empty")\<close> of \<^verbatim>\<open>validate_data\<close>;
  \<^item> \<open>DatasetTooSmall\<close>: \<^verbatim>\<open>ValueError("Dataset too small (minimum 10 rows required)")\<close>;
  \<^item> \<open>NoDateColumn\<close>: the \<^verbatim>\<open>ValueError\<close> of \<^verbatim>\<open>preprocess_data\<close> when no date-like column is found;
  \<^item> \<open>UnknownModelType\<close>: \<^verbatim>\<open>ValueError(f"Unknown model type: ...")\<close> of \<^verbatim>\<open>run_forecast\<close>;
  \<^item> \<open>IndexError\<close>, \<open>ZeroDivisionError\<close>, \<open>KeyError\<close>, \<open>TypeError\<close>,
    \<open>UnboundLocalError\<close>: raised by the interpreter or pandas at an indexing, a
    division, a lookup, an arithmetic operation or the read of a local variable no
    branch has assigned;
  \<^item> \<open>ValueError\<close>: the built-in \<^verbatim>\<open>max\<close> on an empty sequence.
\<close>

datatype lib_error = LibError string

datatype exn =
    DatasetEmpty
  | DatasetTooSmall
  | NoDateColumn "string list"
  | UnknownModelType
  | IndexError
  | ZeroDivisionError
  | ValueError
  | KeyError string
  | TypeError
  | UnboundLocalError
  | External lib_error

text \<open>
  Floats are modelled as real numbers, with one extra value for NumPy's \<^verbatim>\<open>nan\<close>, which
  the metrics produce for empty arrays and which a fitted model can forecast. Rounding
  errors, infinities and overflow of IEEE doubles are outside the model.
\<close>

datatype pyfloat = NaN | Fl real

fun fl_map :: "(real \<Rightarrow> real) \<Rightarrow> pyfloat \<Rightarrow> pyfloat" where
  "fl_map f NaN = NaN"
| "fl_map f (Fl x) = Fl (f x)"

fun fl_map2 :: "(real \<Rightarrow> real \<Rightarrow> real) \<Rightarrow> pyfloat \<Rightarrow> pyfloat \<Rightarrow> pyfloat" where
  "fl_map2 f (Fl x) (Fl y) = Fl (f x y)"
| "fl_map2 f _ _ = NaN"

text \<open>Comparisons with \<^verbatim>\<open>nan\<close> are false, \<^verbatim>\<open>nan == nan\<close> included.\<close>

fun fl_gt :: "pyfloat \<Rightarrow> pyfloat \<Rightarrow> bool" where
  "fl_gt (Fl x) (Fl y) = (x > y)"
| "fl_gt _ _ = False"

fun fl_eq :: "pyfloat \<Rightarrow> pyfloat \<Rightarrow> bool" where
  "fl_eq (Fl x) (Fl y) = (x = y)"
| "fl_eq _ _ = False"

text \<open>Python's \<^verbatim>\<open>max(a, b)\<close> keeps \<open>a\<close> unless \<^verbatim>\<open>b > a\<close>.\<close>

definition py_max :: "pyfloat \<Rightarrow> pyfloat \<Rightarrow> pyfloat" where
  "py_max a b = (if fl_gt b a then b else a)"

text \<open>\<^verbatim>\<open>np.mean\<close>: \<^verbatim>\<open>nan\<close> on an empty array.\<close>

definition np_mean :: "real list \<Rightarrow> pyfloat" where
  "np_mean xs = (if xs = [] then NaN else Fl (sum_list xs / real (length xs)))"

text \<open>The mean of an array the caller has checked to be non-empty.\<close>

definition mean :: "real list \<Rightarrow> real" where
  "mean xs = sum_list xs / real (length xs)"

text \<open>
  \<^verbatim>\<open>round(x, n)\<close>: to \<open>n\<close> decimals, a tie going to the even neighbour. The model
  rounds the real number. Python rounds the double that stands for it, so the two can
  differ by one unit of the last decimal where the real number is a tie and the double
  is not (0.025, whose double is above the tie, is rounded to 0.03 by Python and to
  0.02 here). Where a property below gives a rounded value, that value is an integer,
  on which the two agree.
\<close>

definition py_round :: "nat \<Rightarrow> real \<Rightarrow> real" where
  "py_round n x =
     (let s = x * 10 ^ n; f = \<lfloor>s\<rfloor> in
      (if s - of_int f < 1 / 2 then of_int f
       else if s - of_int f > 1 / 2 then of_int f + 1
       else if even f then of_int f else of_int f + 1) / 10 ^ n)"

text \<open>
  \<^verbatim>\<open>data.iloc[i]\<close> on a series: a negative position counts from the end, a position out
  of range raises \<^verbatim>\<open>IndexError\<close>.
\<close>

definition iloc :: "'a list \<Rightarrow> int \<Rightarrow> exn + 'a" where
  "iloc xs i =
     (if 0 \<le> i \<and> i < int (length xs) then Inr (xs ! nat i)
      else if i < 0 \<and> - int (length xs) \<le> i then Inr (xs ! nat (int (length xs) + i))
      else Inl IndexError)"

text \<open>A dictionary with string keys, in insertion order.\<close>

type_synonym 'v dict = "(string \<times> 'v) list"

definition dict_get :: "'v dict \<Rightarrow> string \<Rightarrow> exn + 'v" where
  "dict_get d k = (case map_of d k of None \<Rightarrow> Inl (KeyError k) | Some v \<Rightarrow> Inr v)"

section \<open>The metrics engine (services/metrics.py)\<close>

text \<open>
  \<^verbatim>\<open>calculate_metrics(actual, predicted)\<close>. Both arrays are cut to their common length.
  \<open>mae\<close>, \<open>rmse\<close> and \<open>mean_actual\<close> are means of arrays that may be empty; every
  other mean is taken under a guard that makes its array non-empty.
  \<^verbatim>\<open>np.sum((actual - np.mean(actual)) ** 2)\<close> is the empty sum 0 for an empty array.
  Both arrays hold numbers: the actual values come from the preprocessor, and the
  orchestrator is embedded for predictions without \<^verbatim>\<open>nan\<close>.
\<close>

definition calculate_metrics :: "real list \<Rightarrow> real list \<Rightarrow> pyfloat dict" where
  "calculate_metrics actual0 predicted0 =
     (let min_len = min (length actual0) (length predicted0);
          actual = take min_len actual0;
          predicted = take min_len predicted0;
          pairs = zip actual predicted;
          mae = np_mean (map (\<lambda>(a, p). \<bar>a - p\<bar>) pairs);
          rmse = fl_map sqrt (np_mean (map (\<lambda>(a, p). (a - p)\<^sup>2) pairs));
          mask = filter (\<lambda>(a, p). a \<noteq> 0) pairs;
          mape = (if length mask > 0
                  then mean (map (\<lambda>(a, p). \<bar>(a - p) / a\<bar>) mask) * 100 else 0);
          smape_mask = filter (\<lambda>(a, p). (\<bar>a\<bar> + \<bar>p\<bar>) / 2 \<noteq> 0) pairs;
          smape = (if length smape_mask > 0
                   then mean (map (\<lambda>(a, p). \<bar>a - p\<bar> / ((\<bar>a\<bar> + \<bar>p\<bar>) / 2)) smape_mask) * 100
                   else 0);
          ss_res = sum_list (map (\<lambda>(a, p). (a - p)\<^sup>2) pairs);
          ss_tot = (case np_mean actual of
                      NaN \<Rightarrow> 0
                    | Fl m \<Rightarrow> sum_list (map (\<lambda>a. (a - m)\<^sup>2) actual));
          r2 = (if ss_tot > 0 then 1 - ss_res / ss_tot else 0);
          rmsse = (if length actual > 1
                   then (let naive_forecast = butlast actual;
                             naive_actual = tl actual;
                             naive_mse = mean (map (\<lambda>(a, f). (a - f)\<^sup>2)
                                                 (zip naive_actual naive_forecast))
                         in if naive_mse > 0
                            then sqrt (mean (map (\<lambda>(a, p). (a - p)\<^sup>2) pairs) / naive_mse)
                            else 0)
                   else 0);
          mean_actual = np_mean actual;
          accuracy = (if fl_gt mean_actual (Fl 0)
                      then (let wape = fl_map2 (\<lambda>x y. x / y) mae mean_actual
                            in py_max (Fl 0) (fl_map (\<lambda>w. (1 - w) * 100) wape))
                      else Fl 0)
      in [(''mae'', fl_map (py_round 2) mae),
          (''rmse'', fl_map (py_round 2) rmse),
          (''mape'', Fl (py_round 2 mape)),
          (''smape'', Fl (py_round 2 smape)),
          (''r2'', Fl (py_round 4 r2)),
          (''rmsse'', Fl (py_round 4 rmsse)),
          (''accuracy'', fl_map (py_round 2) accuracy)])"


text \<open>
  Sequencing of computations that may raise: the first exception ends the block. A
  library call's failure is lifted into the service's exceptions.
\<close>

definition bind_exn :: "exn + 'a \<Rightarrow> ('a \<Rightarrow> exn + 'b) \<Rightarrow> exn + 'b" where
  "bind_exn m f = (case m of Inl e \<Rightarrow> Inl e | Inr x \<Rightarrow> f x)"

definition lift_lib :: "lib_error + 'a \<Rightarrow> exn + 'a" where
  "lift_lib m = (case m of Inl e \<Rightarrow> Inl (External e) | Inr x \<Rightarrow> Inr x)"

fun collect :: "(exn + 'a) list \<Rightarrow> exn + 'a list" where
  "collect [] = Inr []"
| "collect (m # ms) =
     (case m of
        Inl e \<Rightarrow> Inl e
      | Inr x \<Rightarrow> (case collect ms of Inl e \<Rightarrow> Inl e | Inr xs \<Rightarrow> Inr (x # xs)))"

section \<open>The baseline forecaster (models/baseline.py)\<close>

text \<open>
  The service builds \<^verbatim>\<open>BaselineForecaster(method='seasonal_naive')\<close> only, and calls
  \<^verbatim>\<open>fit_predict(data, horizon)\<close> with the default \<^verbatim>\<open>seasonal_period=7\<close>. This is the
  branch that is embedded: for each \<open>i < horizon\<close> the position
  \<^verbatim>\<open>idx = -(seasonal_period - (i % seasonal_period))\<close> is read when
  \<^verbatim>\<open>abs(idx) <= len(data)\<close>, the last value otherwise. A zero period makes \<^verbatim>\<open>%\<close> raise.
\<close>

definition seasonal_naive_value :: "real list \<Rightarrow> nat \<Rightarrow> nat \<Rightarrow> exn + real" where
  "seasonal_naive_value data seasonal_period i =
     (if seasonal_period = 0 then Inl ZeroDivisionError
      else (let idx = - (int seasonal_period - int (i mod seasonal_period))
            in if \<bar>idx\<bar> \<le> int (length data) then iloc data idx else iloc data (- 1)))"

definition seasonal_naive :: "real list \<Rightarrow> nat \<Rightarrow> nat \<Rightarrow> exn + real list" where
  "seasonal_naive data horizon seasonal_period =
     collect (map (seasonal_naive_value data seasonal_period) [0..<horizon])"

section \<open>The statistical forecaster (models/arima.py)\<close>

text \<open>
  statsmodels is outside the repository. What the forecaster calls is a parameter:
  \<^item> \<open>adfuller_pvalue\<close>: \<^verbatim>\<open>adfuller(data.dropna())[1]\<close>;
  \<^item> \<open>detect_seasonality\<close>: the forecaster's own method of that name, an ACF and
    seasonal-decomposition analysis done by statsmodels; it catches every exception, so
    it always returns a pair (period, has_seasonality);
  \<^item> \<open>sarimax\<close>: the \<^verbatim>\<open>SARIMAX(data, order, seasonal_order, enforce_stationarity,
    enforce_invertibility)\<close> constructor, the last argument of the model being the value
    of both \<^verbatim>\<open>enforce_*\<close> flags;
  \<^item> \<open>sarimax_fit\<close>: \<^verbatim>\<open>model.fit(disp=False, maxiter=...)\<close>;
  \<^item> \<open>sarimax_forecast\<close>: \<^verbatim>\<open>fitted_model.forecast(steps=horizon).values\<close>, an array of
    values of type \<open>'v\<close>. The forecaster is embedded for \<open>'v = pyfloat\<close>: an unstable fit
    can forecast \<^verbatim>\<open>nan\<close>.
\<close>

type_synonym order = "nat \<times> nat \<times> nat"
type_synonym seasonal_order = "nat \<times> nat \<times> nat \<times> nat"

record ('m, 'f, 'v) statsmodels =
  adfuller_pvalue :: "real list \<Rightarrow> lib_error + real"
  detect_seasonality :: "real list \<Rightarrow> nat \<times> bool"
  sarimax :: "real list \<Rightarrow> order \<Rightarrow> seasonal_order \<Rightarrow> bool \<Rightarrow> lib_error + 'm"
  sarimax_fit :: "'m \<Rightarrow> nat \<Rightarrow> lib_error + 'f"
  sarimax_forecast :: "'f \<Rightarrow> nat \<Rightarrow> lib_error + 'v list"

text \<open>The fields of an \<^verbatim>\<open>ARIMAForecaster\<close> object, with the constructor's defaults.\<close>

record arima_forecaster =
  order :: order
  seasonal_order :: seasonal_order

definition ARIMAForecaster :: arima_forecaster where
  "ARIMAForecaster = \<lparr>order = (1, 1, 1), seasonal_order = (0, 0, 0, 0)\<rparr>"

text \<open>
  \<^verbatim>\<open>auto_select_order\<close>: \<open>d = 0\<close> for a stationary series (p-value below 0.05), else 1;
  \<open>p = q = 1\<close>; the seasonal order is \<open>(1, 1, 1, period)\<close> when seasonality is detected
  and two cycles of data exist. The result is the new state of the forecaster.
\<close>

definition auto_select_order ::
  "('m, 'f, 'v) statsmodels \<Rightarrow> real list \<Rightarrow> exn + arima_forecaster" where
  "auto_select_order lib data =
     bind_exn (lift_lib (adfuller_pvalue lib data)) (\<lambda>pvalue.
       let is_stationary = (pvalue < 0.05);
           d = (if is_stationary then 0 else 1);
           (seasonal_period, has_seasonality) = detect_seasonality lib data;
           so = (if has_seasonality \<and> seasonal_period > 0
                 then (if length data \<ge> 2 * seasonal_period
                       then (1, 1, 1, seasonal_period) else (0, 0, 0, 0))
                 else (0, 0, 0, 0))
       in Inr \<lparr>order = (1, d, 1), seasonal_order = so\<rparr>)"

definition maxiter_for :: "seasonal_order \<Rightarrow> nat \<Rightarrow> nat" where
  "maxiter_for so data_size =
     (let is_seasonal = (snd (snd (snd so)) > 0)
      in if is_seasonal \<and> data_size > 100 then 100
         else if is_seasonal then 75
         else if data_size > 200 then 75
         else 50)"

text \<open>
  The first part of the \<^verbatim>\<open>try\<close> block of \<^verbatim>\<open>fit_predict\<close>, up to
  \<^verbatim>\<open>predictions = forecast.values\<close>: order selection, model construction, the fit with
  its one retry on the non-seasonal model, and the forecast.
\<close>

definition raw_forecast ::
  "('m, 'f, pyfloat) statsmodels \<Rightarrow> arima_forecaster \<Rightarrow> real list \<Rightarrow> nat \<Rightarrow> bool
     \<Rightarrow> exn + pyfloat list" where
  "raw_forecast lib self data horizon auto_order =
     bind_exn (if auto_order then auto_select_order lib data else Inr self) (\<lambda>self'.
     bind_exn (lift_lib (sarimax lib data (order self') (seasonal_order self') False)) (\<lambda>model.
     bind_exn (case sarimax_fit lib model (maxiter_for (seasonal_order self') (length data)) of
                 Inr fitted \<Rightarrow> Inr fitted
               | Inl _ \<Rightarrow>
                   bind_exn (lift_lib (sarimax lib data (order self') (0, 0, 0, 0) True)) (\<lambda>model2.
                     lift_lib (sarimax_fit lib model2 50))) (\<lambda>fitted_model.
     lift_lib (sarimax_forecast lib fitted_model horizon))))"

text \<open>
  The safety rails, still inside the \<^verbatim>\<open>try\<close> block: clamp at zero; on a non-empty
  series, return the last value repeated when a prediction is above
  \<^verbatim>\<open>max(historical_max * 100, 1e9)\<close>, else cap at \<^verbatim>\<open>historical_max * 10\<close>.
  \<^verbatim>\<open>np.maximum\<close> and \<^verbatim>\<open>np.minimum\<close> hand a \<^verbatim>\<open>nan\<close> on, and \<^verbatim>\<open>nan > threshold\<close> is
  false. The series itself is the output of the preprocessor, which has numbers only.
\<close>

definition safety_rails :: "real list \<Rightarrow> nat \<Rightarrow> pyfloat list \<Rightarrow> exn + pyfloat list" where
  "safety_rails data horizon predictions0 =
     (let predictions = map (fl_map (\<lambda>p. max p 0)) predictions0
      in if data \<noteq> []
         then (let historical_max = Max (set data);
                   threshold = max (historical_max * 100) (10 ^ 9)
               in if list_ex (\<lambda>p. fl_gt p (Fl threshold)) predictions
                  then bind_exn (iloc data (- 1)) (\<lambda>last_value.
                         Inr (replicate horizon (Fl last_value)))
                  else Inr (map (fl_map (\<lambda>p. min p (historical_max * 10))) predictions))
         else Inr predictions)"

text \<open>
  \<^verbatim>\<open>fit_predict\<close>: any exception of the block is caught, and the handler returns the
  last value repeated, 0 standing in for it on an empty series.
\<close>

definition arima_fit_predict ::
  "('m, 'f, pyfloat) statsmodels \<Rightarrow> arima_forecaster \<Rightarrow> real list \<Rightarrow> nat \<Rightarrow> bool
     \<Rightarrow> exn + pyfloat list" where
  "arima_fit_predict lib self data horizon auto_order =
     (case bind_exn (raw_forecast lib self data horizon auto_order) (safety_rails data horizon) of
        Inr predictions \<Rightarrow> Inr predictions
      | Inl _ \<Rightarrow>
          bind_exn (if data \<noteq> [] then iloc data (- 1) else Inr 0) (\<lambda>last_value.
            Inr (replicate horizon (Fl last_value))))"

text \<open>
  Two stand-ins for statsmodels, used to run the forecaster on concrete series: one
  whose model forecasts the given values, one whose every call raises.
\<close>

definition forecasting_statsmodels :: "'v list \<Rightarrow> (unit, unit, 'v) statsmodels" where
  "forecasting_statsmodels ps =
     \<lparr>adfuller_pvalue = (\<lambda>_. Inr 0.5),
      detect_seasonality = (\<lambda>_. (0, False)),
      sarimax = (\<lambda>_ _ _ _. Inr ()),
      sarimax_fit = (\<lambda>_ _. Inr ()),
      sarimax_forecast = (\<lambda>_ _. Inr ps)\<rparr>"

definition failing_statsmodels :: "(unit, unit, 'v) statsmodels" where
  "failing_statsmodels =
     \<lparr>adfuller_pvalue = (\<lambda>_. Inl (LibError ''adfuller'')),
      detect_seasonality = (\<lambda>_. (0, False)),
      sarimax = (\<lambda>_ _ _ _. Inl (LibError ''SARIMAX'')),
      sarimax_fit = (\<lambda>_ _. Inl (LibError ''fit'')),
      sarimax_forecast = (\<lambda>_ _. Inl (LibError ''forecast''))\<rparr>"

section \<open>The boosted-tree forecaster (models/xgboost_model.py)\<close>

datatype granularity = Daily | Weekly | Monthly | OtherGranularity

text \<open>
  \<^verbatim>\<open>create_features\<close> builds a table of lag, rolling, moving-average, rate-of-change and
  calendar columns; its numbers are read by scikit-learn and xgboost only. The service's
  own control flow reads one thing of it, the number of rows \<^verbatim>\<open>dropna()\<close> keeps, so
  the model keeps which rows have a missing value:
  \<^item> \<open>lag_k\<close>, added when \<open>k \<le> len\<close>: \<^verbatim>\<open>shift(k)\<close> leaves the first \<open>k\<close> rows missing;
  \<^item> the rolling statistics over a window \<open>w\<close>, added when \<open>len \<ge> w\<close>, taken on the
    series shifted by one: the first \<open>w\<close> rows are missing;
  \<^item> \<open>ema_7\<close> (\<open>len \<ge> 7\<close>) and \<open>ema_30\<close> (\<open>len \<ge> 30\<close>), on the shifted series: the first
    row is missing;
  \<^item> \<open>roc_7\<close> (\<open>len \<ge> 7\<close>), \<^verbatim>\<open>pct_change(periods=7)\<close>: the first 7 rows are missing, and
    so is every row where the value and the value 7 rows before are both 0 (0/0);
  \<^item> the calendar columns have no missing value, and \<open>lag1_x_dow\<close> is missing where
    \<open>lag_1\<close> is.
  \<open>OtherGranularity\<close> stands for any granularity string but the three the service names.
\<close>

definition lag_periods :: "granularity \<Rightarrow> nat \<Rightarrow> nat list" where
  "lag_periods g n_lags =
     (case g of
        Daily \<Rightarrow> [1, 7, 14, 30]
      | Weekly \<Rightarrow> [1, 4, 12, 52]
      | Monthly \<Rightarrow> [1, 3, 6, 12]
      | OtherGranularity \<Rightarrow> [1..<min (n_lags + 1) 8])"

definition rolling_windows :: "granularity \<Rightarrow> nat list" where
  "rolling_windows g =
     (case g of
        Daily \<Rightarrow> [3, 7, 14, 30]
      | Weekly \<Rightarrow> [4, 12, 26]
      | Monthly \<Rightarrow> [3, 6, 12]
      | OtherGranularity \<Rightarrow> [3, 7, 14])"

definition leading_missing :: "granularity \<Rightarrow> nat \<Rightarrow> nat \<Rightarrow> nat list" where
  "leading_missing g n_lags len =
     filter (\<lambda>lag. lag \<le> len) (lag_periods g n_lags)
     @ filter (\<lambda>window. len \<ge> window) (rolling_windows g)
     @ (if len \<ge> 7 then [1] else [])
     @ (if len \<ge> 30 then [1] else [])
     @ (if len \<ge> 7 then [7] else [])"

definition complete_rows :: "granularity \<Rightarrow> nat \<Rightarrow> real list \<Rightarrow> nat list" where
  "complete_rows g n_lags data =
     (let len = length data;
          warmup = fold max (leading_missing g n_lags len) 0
      in filter (\<lambda>i. warmup \<le> i \<and> \<not> (len \<ge> 7 \<and> data ! i = 0 \<and> data ! (i - 7) = 0))
           [0..<len])"

text \<open>
  scikit-learn, xgboost and the index arithmetic of pandas are parameters:
  \<^item> \<open>xgb_fit\<close>: \<^verbatim>\<open>scaler.fit_transform(X)\<close> and \<^verbatim>\<open>XGBRegressor(...).fit(X_scaled, y)\<close> on the
    complete rows of the feature table of the series;
  \<^item> \<open>xgb_predict\<close>: one step of the recursion, \<^verbatim>\<open>create_features\<close> on the series so far,
    \<^verbatim>\<open>scaler.transform\<close> of its last row and \<^verbatim>\<open>model.predict\<close>;
  \<^item> \<open>advance_index\<close>: \<^verbatim>\<open>current_series.index[-1] + to_offset(freq)\<close> and the append at
    the new label; whether it succeeds on an index that is no \<^verbatim>\<open>DatetimeIndex\<close> is up
    to pandas.
\<close>

record 'm xgb_lib =
  xgb_fit :: "granularity \<Rightarrow> real list \<Rightarrow> lib_error + 'm"
  xgb_predict :: "'m \<Rightarrow> granularity \<Rightarrow> real list \<Rightarrow> lib_error + real"
  advance_index :: "real list \<Rightarrow> lib_error + unit"

text \<open>
  The loop \<^verbatim>\<open>for step in range(horizon)\<close>: predict, clamp at zero, append to the working
  series.
\<close>

fun recursive_forecast ::
  "'m xgb_lib \<Rightarrow> 'm \<Rightarrow> granularity \<Rightarrow> real list \<Rightarrow> nat \<Rightarrow> exn + real list" where
  "recursive_forecast lib model g current_series 0 = Inr []"
| "recursive_forecast lib model g current_series (Suc steps) =
     (case lift_lib (xgb_predict lib model g current_series) of
        Inl e \<Rightarrow> Inl e
      | Inr p \<Rightarrow>
          (let pred = max 0 p
           in case lift_lib (advance_index lib current_series) of
                Inl e \<Rightarrow> Inl e
              | Inr _ \<Rightarrow>
                  (case recursive_forecast lib model g (current_series @ [pred]) steps of
                     Inl e \<Rightarrow> Inl e
                   | Inr predictions \<Rightarrow> Inr (pred # predictions))))"

text \<open>
  \<^verbatim>\<open>fit_predict\<close>: the naive forecast when fewer than 10 rows are complete, else fit
  and recurse; the handler of the \<^verbatim>\<open>try\<close> block returns the naive forecast too, and
  reads \<^verbatim>\<open>data.iloc[-1]\<close> with no guard.
\<close>

definition xgb_fit_predict ::
  "'m xgb_lib \<Rightarrow> nat \<Rightarrow> real list \<Rightarrow> nat \<Rightarrow> granularity \<Rightarrow> exn + real list" where
  "xgb_fit_predict lib n_lags data horizon g =
     (case (if length (complete_rows g n_lags data) < 10
            then bind_exn (iloc data (- 1)) (\<lambda>last_value. Inr (replicate horizon last_value))
            else bind_exn (lift_lib (xgb_fit lib g data)) (\<lambda>model.
                   recursive_forecast lib model g data horizon)) of
        Inr predictions \<Rightarrow> Inr predictions
      | Inl _ \<Rightarrow> bind_exn (iloc data (- 1)) (\<lambda>last_value. Inr (replicate horizon last_value)))"

text \<open>Stand-ins for the libraries: a model that predicts the given value at every step,
  and one whose every call raises.\<close>

definition constant_xgb :: "real \<Rightarrow> unit xgb_lib" where
  "constant_xgb v =
     \<lparr>xgb_fit = (\<lambda>_ _. Inr ()),
      xgb_predict = (\<lambda>_ _ _. Inr v),
      advance_index = (\<lambda>_. Inr ())\<rparr>"

definition failing_xgb :: "unit xgb_lib" where
  "failing_xgb =
     \<lparr>xgb_fit = (\<lambda>_ _. Inl (LibError ''fit'')),
      xgb_predict = (\<lambda>_ _ _. Inl (LibError ''predict'')),
      advance_index = (\<lambda>_. Inl (LibError ''offset''))\<rparr>"

section \<open>Timestamps and the calendar (pandas)\<close>

text \<open>
  A timestamp is a number of seconds since 1970-01-01 00:00, a day a number of days
  since 1970-01-01 (a Thursday), a month the number \<open>12 * year + (month - 1)\<close>. The two
  conversions between days and dates of the proleptic Gregorian calendar are the usual
  era-based ones (an era is 400 years, 146097 days, and starts on a 1st of March).
\<close>

type_synonym timestamp = int

definition day_of :: "timestamp \<Rightarrow> int" where
  "day_of t = t div 86400"

definition time_of_day :: "timestamp \<Rightarrow> int" where
  "time_of_day t = t mod 86400"

definition midnight :: "int \<Rightarrow> timestamp" where
  "midnight d = d * 86400"

definition civil_from_days :: "int \<Rightarrow> int \<times> int \<times> int" where
  "civil_from_days n =
     (let z = n + 719468;
          era = z div 146097;
          doe = z - era * 146097;
          yoe = (doe - doe div 1460 + doe div 36524 - doe div 146096) div 365;
          doy = doe - (365 * yoe + yoe div 4 - yoe div 100);
          mp = (5 * doy + 2) div 153;
          d = doy - (153 * mp + 2) div 5 + 1;
          m = (if mp < 10 then mp + 3 else mp - 9);
          y = yoe + era * 400 + (if m \<le> 2 then 1 else 0)
      in (y, m, d))"

definition days_from_civil :: "int \<Rightarrow> int \<Rightarrow> int \<Rightarrow> int" where
  "days_from_civil y0 m d =
     (let y = (if m \<le> 2 then y0 - 1 else y0);
          era = y div 400;
          yoe = y - era * 400;
          doy = (153 * (if m > 2 then m - 3 else m + 9) + 2) div 5 + d - 1;
          doe = yoe * 365 + yoe div 4 - yoe div 100 + doy
      in era * 146097 + doe - 719468)"

definition month_of_day :: "int \<Rightarrow> int" where
  "month_of_day n = (case civil_from_days n of (y, m, d) \<Rightarrow> 12 * y + (m - 1))"

definition month_start :: "int \<Rightarrow> int" where
  "month_start k = days_from_civil (k div 12) (k mod 12 + 1) 1"

definition month_end :: "int \<Rightarrow> int" where
  "month_end k = month_start (k + 1) - 1"

text \<open>The Sunday on or after a day: day 3 (1970-01-04) is a Sunday.\<close>

definition sunday_on_or_after :: "int \<Rightarrow> int" where
  "sunday_on_or_after n = n + (3 - n) mod 7"

text \<open>\<^verbatim>\<open>strftime('%Y-%m-%d')\<close>: the date of a timestamp, as (year, month, day).\<close>

definition strftime_ymd :: "timestamp \<Rightarrow> int \<times> int \<times> int" where
  "strftime_ymd t = civil_from_days (day_of t)"

text \<open>
  \<^verbatim>\<open>df.resample(rule).sum()\<close> on a frame indexed by timestamps. Each row falls into the bin
  of its day (\<^verbatim>\<open>'D'\<close>), of its week ending on a Sunday (\<^verbatim>\<open>'W'\<close>, closed and labelled on
  the right) or of its month (\<^verbatim>\<open>'MS'\<close>, labelled with the first day). \<open>bucket\<close> numbers the
  bins consecutively and \<open>label\<close> is the timestamp a bin is labelled with. The result
  has one row for every bin from the first to the last occupied one, with the sum of its
  rows, which is 0 for a bin without rows.
\<close>

datatype rule = Rule_D | Rule_W | Rule_MS

definition bucket :: "rule \<Rightarrow> timestamp \<Rightarrow> int" where
  "bucket r t =
     (case r of
        Rule_D \<Rightarrow> day_of t
      | Rule_W \<Rightarrow> (day_of t + 3) div 7
      | Rule_MS \<Rightarrow> month_of_day (day_of t))"

definition label :: "rule \<Rightarrow> int \<Rightarrow> timestamp" where
  "label r k =
     (case r of
        Rule_D \<Rightarrow> midnight k
      | Rule_W \<Rightarrow> midnight (7 * k + 3)
      | Rule_MS \<Rightarrow> midnight (month_start k))"

definition resample_sum :: "rule \<Rightarrow> (timestamp \<times> real) list \<Rightarrow> (timestamp \<times> real) list" where
  "resample_sum r s =
     (if s = [] then []
      else (let ks = map (\<lambda>row. bucket r (fst row)) s
            in map (\<lambda>k. (label r k,
                         sum_list (map snd (filter (\<lambda>row. bucket r (fst row) = k) s))))
                 [Min (set ks)..Max (set ks)]))"

text \<open>
  \<^verbatim>\<open>pd.date_range(start, periods=n, freq=...)\<close>: \<open>n\<close> timestamps one period apart, the first
  being \<open>start\<close> rolled forward onto the frequency (kept as it is for \<^verbatim>\<open>'D'\<close>, moved to
  the Sunday on or after it for \<^verbatim>\<open>'W'\<close>, to the last day of its month for \<^verbatim>\<open>'M'\<close>); the
  time of day is kept.
\<close>

datatype freq = Freq_D | Freq_W | Freq_M

definition date_range :: "timestamp \<Rightarrow> nat \<Rightarrow> freq \<Rightarrow> timestamp list" where
  "date_range start periods f =
     (case f of
        Freq_D \<Rightarrow> map (\<lambda>i. start + int i * 86400) [0..<periods]
      | Freq_W \<Rightarrow>
          map (\<lambda>i. midnight (sunday_on_or_after (day_of start) + 7 * int i) + time_of_day start)
            [0..<periods]
      | Freq_M \<Rightarrow>
          map (\<lambda>i. midnight (month_end (month_of_day (day_of start) + int i)) + time_of_day start)
            [0..<periods])"

section \<open>Tables (pandas DataFrame)\<close>

text \<open>
  A raw record set: column labels, a dtype per column and rows of cells. \<open>Null\<close> is a
  missing cell (\<^verbatim>\<open>NaN\<close>, \<^verbatim>\<open>NaT\<close>). A column pandas reads as text has dtype \<open>Object\<close>, a
  column of numbers \<open>Float\<close>, a column of parsed dates \<open>Datetime\<close>.
\<close>

datatype cell = Str string | Num real | Stamp timestamp | Null

datatype dtype = Object | Float | Datetime

record dataframe =
  columns :: "string list"
  dtypes :: "dtype list"
  rows :: "cell list list"

fun position :: "'a \<Rightarrow> 'a list \<Rightarrow> nat" where
  "position x [] = 0"
| "position x (y # ys) = (if x = y then 0 else Suc (position x ys))"

definition cell_at :: "cell list \<Rightarrow> nat \<Rightarrow> cell" where
  "cell_at row i = (if i < length row then row ! i else Null)"

text \<open>\<^verbatim>\<open>df[col]\<close> and \<^verbatim>\<open>df[col].dtype\<close> for a label of \<^verbatim>\<open>df.columns\<close>.\<close>

definition column :: "dataframe \<Rightarrow> string \<Rightarrow> cell list" where
  "column df col = map (\<lambda>row. cell_at row (position col (columns df))) (rows df)"

definition dtype_of :: "dataframe \<Rightarrow> string \<Rightarrow> dtype" where
  "dtype_of df col = dtypes df ! position col (columns df)"

text \<open>
  \<^verbatim>\<open>df[col] = values\<close> for a label of \<^verbatim>\<open>df.columns\<close>, one value per row: the column of
  the frame is replaced, in the frame object itself.
\<close>

definition assign :: "dataframe \<Rightarrow> string \<Rightarrow> dtype \<Rightarrow> cell list \<Rightarrow> dataframe" where
  "assign df col dt vals =
     df\<lparr>dtypes := (dtypes df)[position col (columns df) := dt],
        rows := map (\<lambda>(row, v). row[position col (columns df) := v]) (zip (rows df) vals)\<rparr>"

section \<open>Strings\<close>

definition lower :: "string \<Rightarrow> string" where
  "lower s = map (\<lambda>c. let n = (of_char c :: nat)
                       in if 65 \<le> n \<and> n \<le> 90 then char_of (n + 32) else c) s"

text \<open>
  \<^verbatim>\<open>str.strip()\<close> removes the characters \<^verbatim>\<open>str.isspace\<close> accepts. A string is its bytes in
  UTF-8, and \<open>is_space\<close> knows the whitespace characters of one byte: tab to carriage
  return, the four separators U+001C to U+001F, and the space. The whitespace characters
  of several bytes (U+0085, U+00A0, U+2028 and the like) stay where they are, and
  \<open>lower\<close> changes the letters A to Z only: column names with such characters at their
  ends, or with other capital letters, are outside the model.
\<close>

definition is_space :: "char \<Rightarrow> bool" where
  "is_space c \<longleftrightarrow> (of_char c :: nat) \<in> {9, 10, 11, 12, 13, 28, 29, 30, 31, 32}"

definition strip :: "string \<Rightarrow> string" where
  "strip s = rev (dropWhile is_space (rev (dropWhile is_space s)))"

text \<open>\<^verbatim>\<open>s.replace('\ufeff', '')\<close>, the byte order mark being three bytes in UTF-8.\<close>

fun remove_bom :: "string \<Rightarrow> string" where
  "remove_bom (a # b # c # s) =
     (if (of_char a :: nat) = 239 \<and> (of_char b :: nat) = 187 \<and> (of_char c :: nat) = 191
      then remove_bom s else a # remove_bom (b # c # s))"
| "remove_bom s = s"

text \<open>\<^verbatim>\<open>sub in s\<close>.\<close>

definition contains :: "string \<Rightarrow> string \<Rightarrow> bool" where
  "contains s sub \<longleftrightarrow> sublist sub s"

section \<open>The data loader and the cache (services/cache.py, services/data_loader.py)\<close>

text \<open>
  The world outside the repository:
  \<^item> \<open>fetch\<close>: \<^verbatim>\<open>requests.get(url, timeout=60)\<close>, \<^verbatim>\<open>raise_for_status()\<close> and
    \<^verbatim>\<open>pd.read_csv\<close>;
  \<^item> \<open>md5\<close>: \<^verbatim>\<open>hashlib.md5(s.encode()).hexdigest()\<close>;
  \<^item> \<open>to_numeric\<close>: the number \<^verbatim>\<open>pd.to_numeric(errors='coerce')\<close> reads in a string,
    \<open>None\<close> when it reads none;
  \<^item> \<open>to_datetime\<close>: the timestamp \<^verbatim>\<open>pd.to_datetime(errors='coerce')\<close> reads in a cell,
    \<open>None\<close> for \<^verbatim>\<open>NaT\<close>;
  \<^item> \<open>stats\<close> and \<open>boost\<close>: the libraries of the two fitted forecasters.
\<close>

record ('m, 'f, 'x) environment =
  fetch :: "string \<Rightarrow> lib_error + dataframe"
  md5 :: "string \<Rightarrow> string"
  to_numeric :: "string \<Rightarrow> real option"
  to_datetime :: "cell \<Rightarrow> timestamp option"
  stats :: "('m, 'f, real) statsmodels"
  boost :: "'x xgb_lib"

text \<open>
  The state of the process: the DataFrame objects, by reference, and the dictionary
  \<^verbatim>\<open>_cache\<close> of the one global \<^verbatim>\<open>DatasetCache(ttl_seconds=300)\<close>, from a key to a pair
  of a reference and the time of the store. The cache holds the reference it is given,
  not a copy.
\<close>

type_synonym ref = nat

record state =
  objects :: "ref \<Rightarrow> dataframe"
  next_ref :: ref
  cache :: "string \<Rightarrow> (ref \<times> int) option"

definition ttl_seconds :: int where
  "ttl_seconds = 300"

definition is_expired :: "int \<Rightarrow> int \<Rightarrow> bool" where
  "is_expired now timestamp \<longleftrightarrow> now - timestamp > ttl_seconds"

definition generate_key :: "('m, 'f, 'x) environment \<Rightarrow> string \<Rightarrow> string \<Rightarrow> string" where
  "generate_key env url granularity = md5 env (url @ '':'' @ granularity)"

definition cache_get ::
  "('m, 'f, 'x) environment \<Rightarrow> int \<Rightarrow> string \<Rightarrow> string \<Rightarrow> state \<Rightarrow> ref option \<times> state" where
  "cache_get env now url granularity st =
     (let key = generate_key env url granularity
      in case cache st key of
           Some (data, timestamp) \<Rightarrow>
             if \<not> is_expired now timestamp then (Some data, st)
             else (None, st\<lparr>cache := (cache st)(key := None)\<rparr>)
         | None \<Rightarrow> (None, st))"

definition cache_set ::
  "('m, 'f, 'x) environment \<Rightarrow> int \<Rightarrow> string \<Rightarrow> ref \<Rightarrow> string \<Rightarrow> state \<Rightarrow> state" where
  "cache_set env now url data granularity st =
     st\<lparr>cache := (cache st)(generate_key env url granularity \<mapsto> (data, now))\<rparr>"

text \<open>
  \<^verbatim>\<open>load_data_from_url\<close>: the cached frame when there is one, else the fetched frame with
  its labels cleaned, which is stored in the cache and returned. Both ways the caller
  gets the reference the cache holds.
\<close>

definition load_data_from_url ::
  "('m, 'f, 'x) environment \<Rightarrow> int \<Rightarrow> string \<Rightarrow> state \<Rightarrow> (exn + ref) \<times> state" where
  "load_data_from_url env now url st =
     (case cache_get env now url ''raw'' st of
        (Some cached_df, st1) \<Rightarrow> (Inr cached_df, st1)
      | (None, st1) \<Rightarrow>
          (case fetch env url of
             Inl e \<Rightarrow> (Inl (External e), st1)
           | Inr parsed \<Rightarrow>
               (let df = next_ref st1;
                    st2 = st1\<lparr>objects := (objects st1)
                                (df := parsed\<lparr>columns := map (\<lambda>c. remove_bom (strip c))
                                                             (columns parsed)\<rparr>),
                              next_ref := Suc df\<rparr>
                in (Inr df, cache_set env now url df ''raw'' st2))))"

definition validate_data :: "dataframe \<Rightarrow> exn + bool" where
  "validate_data df =
     (if rows df = [] \<or> columns df = [] then Inl DatasetEmpty
      else if length (rows df) < 10 then Inl DatasetTooSmall
      else Inr True)"

text \<open>
  The two \<^verbatim>\<open>ValueError\<close>s of \<^verbatim>\<open>validate_data\<close> are the only places where the service
  reports too little data.
\<close>

definition insufficient_data :: "exn \<Rightarrow> bool" where
  "insufficient_data e \<longleftrightarrow> e = DatasetEmpty \<or> e = DatasetTooSmall"

section \<open>The preprocessor (services/data_loader.py)\<close>

definition date_like :: "string \<Rightarrow> bool" where
  "date_like col \<longleftrightarrow>
     contains (lower col) ''date'' \<or> contains (lower col) ''time''
     \<or> contains (lower col) ''day'' \<or> contains (lower col) ''month''
     \<or> contains (lower col) ''year''"

definition sales_like :: "string \<Rightarrow> bool" where
  "sales_like col \<longleftrightarrow>
     list_ex (\<lambda>x. contains (lower col) x)
       [''sales'', ''revenue'', ''amount'', ''value'', ''price'', ''quantity'']"

definition detect_date_col :: "dataframe \<Rightarrow> string \<Rightarrow> exn + string" where
  "detect_date_col df date_col =
     (if date_col \<in> set (columns df) then Inr date_col
      else (case filter date_like (columns df) of
              c # _ \<Rightarrow> Inr c
            | [] \<Rightarrow> Inl (NoDateColumn (columns df))))"

text \<open>
  \<^verbatim>\<open>df[col].astype(str).str.contains('[\$0-9]', regex=True)\<close> on one cell: a dollar sign or
  a digit in the text of the cell. The text of a number has a digit, the text of a
  missing cell is \<^verbatim>\<open>nan\<close>.
\<close>

definition currency_like :: "cell \<Rightarrow> bool" where
  "currency_like c =
     (case c of
        Str s \<Rightarrow> list_ex (\<lambda>ch. let n = (of_char ch :: nat) in n = 36 \<or> (48 \<le> n \<and> n \<le> 57)) s
      | Num _ \<Rightarrow> True
      | Stamp _ \<Rightarrow> True
      | Null \<Rightarrow> False)"

definition detect_value_col :: "dataframe \<Rightarrow> string \<Rightarrow> string" where
  "detect_value_col df value_col =
     (if value_col \<in> set (columns df) then value_col
      else (let potential_cols = filter sales_like (columns df);
                numeric_match =
                  find (\<lambda>col. dtype_of df col = Float
                             \<or> (dtype_of df col = Object \<and> list_ex currency_like (column df col)))
                    potential_cols
            in case numeric_match of
                 Some col \<Rightarrow> col
               | None \<Rightarrow> (case potential_cols of col # _ \<Rightarrow> col | [] \<Rightarrow> ''sales'')))"

text \<open>
  The currency cleanup of one cell of a text column: drop \<^verbatim>\<open>$\<close> and \<^verbatim>\<open>,\<close>, strip, read a
  number, 0 when none is read.
\<close>

definition clean_currency :: "('m, 'f, 'x) environment \<Rightarrow> cell \<Rightarrow> cell" where
  "clean_currency env c =
     (case c of
        Str s \<Rightarrow>
          (case to_numeric env
                  (strip (filter (\<lambda>ch. (of_char ch :: nat) \<noteq> 36 \<and> (of_char ch :: nat) \<noteq> 44) s)) of
             Some x \<Rightarrow> Num x
           | None \<Rightarrow> Num 0)
      | Num x \<Rightarrow> Num x
      | Stamp _ \<Rightarrow> Num 0
      | Null \<Rightarrow> Num 0)"

definition parse_date :: "('m, 'f, 'x) environment \<Rightarrow> cell \<Rightarrow> cell" where
  "parse_date env c = (case to_datetime env c of Some t \<Rightarrow> Stamp t | None \<Rightarrow> Null)"

text \<open>
  The first half of \<^verbatim>\<open>preprocess_data\<close> works on the frame it is handed: it finds the
  two columns, and assigns the cleaned value column (when its dtype is \<open>Object\<close>) and
  the parsed date column to that frame. The result is the two labels and the frame
  after the assignments.
\<close>

definition clean_columns ::
  "('m, 'f, 'x) environment \<Rightarrow> dataframe \<Rightarrow> string \<Rightarrow> string \<Rightarrow> exn + (string \<times> string \<times> dataframe)" where
  "clean_columns env df date_col0 value_col0 =
     bind_exn (detect_date_col df date_col0) (\<lambda>date_col.
       let value_col = detect_value_col df value_col0;
           df1 = (if value_col \<in> set (columns df) \<and> dtype_of df value_col = Object
                  then assign df value_col Float (map (clean_currency env) (column df value_col))
                  else df);
           df2 = assign df1 date_col Datetime (map (parse_date env) (column df1 date_col))
       in Inr (date_col, value_col, df2))"

text \<open>
  The second half works on new objects: rows without a date are dropped, the values are
  summed by timestamp (\<^verbatim>\<open>groupby(date_col)[value_col].sum()\<close>, a missing value counting
  0, a value column that is missing a \<^verbatim>\<open>KeyError\<close> and one of dates a \<^verbatim>\<open>TypeError\<close>),
  sorted, resampled by the rule of the granularity (\<^verbatim>\<open>'D'\<close>, \<^verbatim>\<open>'W'\<close> or \<^verbatim>\<open>'MS'\<close>; any other
  granularity leaves the series as it is), and split at 80 percent.
\<close>

definition cell_value :: "cell \<Rightarrow> real" where
  "cell_value c = (case c of Num x \<Rightarrow> x | _ \<Rightarrow> 0)"

definition dated_rows :: "dataframe \<Rightarrow> string \<Rightarrow> string \<Rightarrow> (timestamp \<times> real) list" where
  "dated_rows df date_col value_col =
     concat (map (\<lambda>row. case cell_at row (position date_col (columns df)) of
                          Stamp t \<Rightarrow> [(t, cell_value (cell_at row (position value_col (columns df))))]
                        | _ \<Rightarrow> [])
               (rows df))"

definition group_sum :: "(timestamp \<times> real) list \<Rightarrow> (timestamp \<times> real) list" where
  "group_sum s =
     map (\<lambda>t. (t, sum_list (map snd (filter (\<lambda>row. fst row = t) s))))
       (sort (remdups (map fst s)))"

definition resample_rule :: "granularity \<Rightarrow> rule option" where
  "resample_rule g =
     (case g of
        Daily \<Rightarrow> Some Rule_D
      | Weekly \<Rightarrow> Some Rule_W
      | Monthly \<Rightarrow> Some Rule_MS
      | OtherGranularity \<Rightarrow> None)"

definition resample_at :: "granularity \<Rightarrow> (timestamp \<times> real) list \<Rightarrow> (timestamp \<times> real) list" where
  "resample_at g s = (case resample_rule g of Some r \<Rightarrow> resample_sum r s | None \<Rightarrow> s)"

definition split_idx :: "nat \<Rightarrow> nat" where
  "split_idx n = nat \<lfloor>real n * 0.8\<rfloor>"

type_synonym series = "(timestamp \<times> real) list"

definition build_series ::
  "dataframe \<Rightarrow> string \<Rightarrow> string \<Rightarrow> granularity \<Rightarrow> exn + (series \<times> series)" where
  "build_series df date_col value_col g =
     (if value_col \<notin> set (columns df) then Inl (KeyError value_col)
      else if dtype_of df value_col = Datetime then Inl TypeError
      else (let series = resample_at g (group_sum (dated_rows df date_col value_col))
            in Inr (take (split_idx (length series)) series,
                    drop (split_idx (length series)) series)))"

text \<open>
  \<^verbatim>\<open>preprocess_data(df, date_col, value_col, granularity)\<close> on a frame given by reference:
  the assignments of the first half are made to the object the reference names.
\<close>

definition preprocess_data ::
  "('m, 'f, 'x) environment \<Rightarrow> ref \<Rightarrow> string \<Rightarrow> string \<Rightarrow> granularity \<Rightarrow> state
     \<Rightarrow> (exn + (series \<times> series)) \<times> state" where
  "preprocess_data env df date_col0 value_col0 g st =
     (case clean_columns env (objects st df) date_col0 value_col0 of
        Inl e \<Rightarrow> (Inl e, st)
      | Inr (date_col, value_col, cleaned) \<Rightarrow>
          (build_series cleaned date_col value_col g,
           st\<lparr>objects := (objects st)(df := cleaned)\<rparr>))"

section \<open>The orchestrator (services/forecast_service.py)\<close>

text \<open>
  The model types of the request, and \<open>OtherModel\<close> for any other string.
  \<open>run_model\<close> is the dispatch on the model type: the seasonal-naive baseline with
  its default period 7, the statistical forecaster with \<^verbatim>\<open>auto_order=True\<close>, the
  boosted-tree forecaster with \<^verbatim>\<open>n_lags=7\<close>, all on the values of the train series.
  The last branch is the \<^verbatim>\<open>raise ValueError\<close> of \<^verbatim>\<open>run_forecast\<close>; the loop of
  \<^verbatim>\<open>auto_select_model\<close> runs the dispatch on the three concrete types only.

  The orchestrator is embedded for a statsmodels whose forecasts are numbers: its
  environment holds a library of type \<open>('m, 'f, real) statsmodels\<close>, which \<open>as_floats\<close>
  hands to the forecaster, and \<open>number\<close> reads the forecaster's values back. With such
  a library the forecaster returns no \<^verbatim>\<open>nan\<close> (lemma \<open>arima_numbers\<close> below), so
  \<open>number\<close> needs no value for it. What the scoring and the formatting do with a
  forecast that contains \<^verbatim>\<open>nan\<close> is outside this part of the model.
\<close>

datatype model_type = Baseline | Arima | Xgboost | Auto | OtherModel

definition as_floats :: "('m, 'f, real) statsmodels \<Rightarrow> ('m, 'f, pyfloat) statsmodels" where
  "as_floats lib =
     \<lparr>adfuller_pvalue = adfuller_pvalue lib,
      detect_seasonality = detect_seasonality lib,
      sarimax = sarimax lib,
      sarimax_fit = sarimax_fit lib,
      sarimax_forecast = (\<lambda>fitted_model horizon.
         case sarimax_forecast lib fitted_model horizon of
           Inl e \<Rightarrow> Inl e
         | Inr values \<Rightarrow> Inr (map Fl values))\<rparr>"

fun number :: "pyfloat \<Rightarrow> real" where
  "number (Fl x) = x"

definition run_model ::
  "('m, 'f, 'x) environment \<Rightarrow> model_type \<Rightarrow> real list \<Rightarrow> nat \<Rightarrow> granularity \<Rightarrow> exn + real list" where
  "run_model env model_type data horizon g =
     (case model_type of
        Baseline \<Rightarrow> seasonal_naive data horizon 7
      | Arima \<Rightarrow>
          bind_exn (arima_fit_predict (as_floats (stats env)) ARIMAForecaster data horizon True)
            (\<lambda>predictions. Inr (map number predictions))
      | Xgboost \<Rightarrow> xgb_fit_predict (boost env) 7 data horizon g
      | _ \<Rightarrow> Inl UnknownModelType)"

text \<open>
  One pass of the loop of \<^verbatim>\<open>auto_select_model\<close>: the trial of a model at the
  validation horizon, scored against the first \<open>val_horizon\<close> validation values. Of the
  score dictionary the model keeps the two entries the ranking reads, accuracy and r2
  (the entries mae and rmse are logged only). A trial that raises is given accuracy 0
  and r2 \<open>-1\<close>.
\<close>

type_synonym score = "pyfloat \<times> pyfloat"

definition trial_score ::
  "('m, 'f, 'x) environment \<Rightarrow> model_type \<Rightarrow> series \<Rightarrow> series \<Rightarrow> granularity \<Rightarrow> nat \<Rightarrow> score" where
  "trial_score env model_type train_series test_series g val_horizon =
     (case bind_exn (run_model env model_type (map snd train_series) val_horizon g) (\<lambda>predictions.
             let actual_vals = take val_horizon (map snd test_series);
                 pred_vals = take (length actual_vals) predictions;
                 metrics = calculate_metrics actual_vals pred_vals
             in bind_exn (dict_get metrics ''accuracy'') (\<lambda>accuracy.
                bind_exn (dict_get metrics ''r2'') (\<lambda>r2.
                  Inr (accuracy, r2)))) of
        Inr s \<Rightarrow> s
      | Inl _ \<Rightarrow> (Fl 0, Fl (- 1)))"

text \<open>
  \<^verbatim>\<open>max(model_scores.items(), key=lambda x: (x[1]['accuracy'], x[1]['r2']))\<close>. A tuple is
  greater than another when, at the first position where they differ, its entry is
  greater; \<^verbatim>\<open>max\<close> keeps the first of the items whose key is greatest, and raises on an
  empty sequence.
\<close>

definition key_gt :: "score \<Rightarrow> score \<Rightarrow> bool" where
  "key_gt a b =
     (if \<not> fl_eq (fst a) (fst b) then fl_gt (fst a) (fst b)
      else if \<not> fl_eq (snd a) (snd b) then fl_gt (snd a) (snd b)
      else False)"

fun max_by_key :: "('a \<times> score) \<Rightarrow> ('a \<times> score) list \<Rightarrow> ('a \<times> score)" where
  "max_by_key best [] = best"
| "max_by_key best (item # items) =
     max_by_key (if key_gt (snd item) (snd best) then item else best) items"

definition py_max_items :: "('a \<times> score) list \<Rightarrow> exn + ('a \<times> score)" where
  "py_max_items items =
     (case items of [] \<Rightarrow> Inl ValueError | item # rest \<Rightarrow> Inr (max_by_key item rest))"

definition auto_select_model ::
  "('m, 'f, 'x) environment \<Rightarrow> series \<Rightarrow> series \<Rightarrow> granularity
     \<Rightarrow> exn + (model_type \<times> (model_type \<times> score) list)" where
  "auto_select_model env train_series test_series g =
     (let val_horizon = min (length test_series) 30;
          model_scores = map (\<lambda>model_type.
                                (model_type,
                                 trial_score env model_type train_series test_series g val_horizon))
                           [Baseline, Arima, Xgboost]
      in bind_exn (py_max_items model_scores) (\<lambda>best. Inr (fst best, model_scores)))"

text \<open>
  The scoring step of \<^verbatim>\<open>run_forecast\<close>: against the validation values when there are
  any, else against the last \<open>n = min(horizon, len(train) // 5)\<close> train values when
  \<open>n > 0\<close>, else the default dictionary.
\<close>

definition score_step :: "real list \<Rightarrow> real list \<Rightarrow> real list \<Rightarrow> nat \<Rightarrow> pyfloat dict" where
  "score_step train test predictions horizon =
     (if length test > 0
      then calculate_metrics test (take (length test) predictions)
      else (let n = min horizon (length train div 5)
            in if n > 0
               then calculate_metrics (drop (length train - n) train) (take n predictions)
               else [(''mae'', Fl 0), (''rmse'', Fl 0), (''mape'', Fl 0), (''accuracy'', Fl 0)]))"

text \<open>
  The formatting step: \<^verbatim>\<open>pd.date_range(last_date, periods=horizon + 1, freq=...)[1:]\<close>
  with \<^verbatim>\<open>freq\<close> \<^verbatim>\<open>'D'\<close>, \<^verbatim>\<open>'W'\<close> or \<^verbatim>\<open>'M'\<close> by granularity. For any other granularity no
  branch assigns \<^verbatim>\<open>future_dates\<close>, and reading it raises.
\<close>

definition future_dates :: "granularity \<Rightarrow> timestamp \<Rightarrow> nat \<Rightarrow> exn + timestamp list" where
  "future_dates g last_date horizon =
     (case g of
        Daily \<Rightarrow> Inr (tl (date_range last_date (horizon + 1) Freq_D))
      | Weekly \<Rightarrow> Inr (tl (date_range last_date (horizon + 1) Freq_W))
      | Monthly \<Rightarrow> Inr (tl (date_range last_date (horizon + 1) Freq_M))
      | OtherGranularity \<Rightarrow> Inl UnboundLocalError)"

record forecast_result =
  result_predictions :: "((int \<times> int \<times> int) \<times> real) list"
  result_metrics :: "pyfloat dict"

definition format_step ::
  "series \<Rightarrow> real list \<Rightarrow> nat \<Rightarrow> granularity \<Rightarrow> exn + ((int \<times> int \<times> int) \<times> real) list" where
  "format_step train_series predictions horizon g =
     bind_exn (iloc (map fst train_series) (- 1)) (\<lambda>last_date.
     bind_exn (future_dates g last_date horizon) (\<lambda>dates.
       Inr (map (\<lambda>(date, v). (strftime_ymd date, v)) (zip dates predictions))))"

text \<open>
  \<^verbatim>\<open>run_forecast\<close> after the preprocessing: selection when the model type is \<open>Auto\<close>, the
  forecast at the requested horizon, the scoring step, the formatting step, and the log
  line that reads \<^verbatim>\<open>metrics['accuracy']\<close>.
\<close>

definition forecast_series ::
  "('m, 'f, 'x) environment \<Rightarrow> series \<Rightarrow> series \<Rightarrow> model_type \<Rightarrow> nat \<Rightarrow> granularity
     \<Rightarrow> exn + forecast_result" where
  "forecast_series env train_series test_series model_type0 horizon g =
     bind_exn (if model_type0 = Auto
               then bind_exn (auto_select_model env train_series test_series g) (\<lambda>selected.
                      Inr (fst selected))
               else Inr model_type0) (\<lambda>model_type.
     bind_exn (run_model env model_type (map snd train_series) horizon g) (\<lambda>predictions.
       let metrics = score_step (map snd train_series) (map snd test_series) predictions horizon
       in bind_exn (format_step train_series predictions horizon g) (\<lambda>prediction_list.
          bind_exn (dict_get metrics ''accuracy'') (\<lambda>_.
            Inr \<lparr>result_predictions = prediction_list, result_metrics = metrics\<rparr>))))"

text \<open>
  \<^verbatim>\<open>run_forecast(dataset_url, model_type, horizon, granularity)\<close> at the time \<open>now\<close>: load,
  validate the frame as loaded, preprocess with the default column names, forecast.
\<close>

definition run_forecast ::
  "('m, 'f, 'x) environment \<Rightarrow> int \<Rightarrow> string \<Rightarrow> model_type \<Rightarrow> nat \<Rightarrow> granularity \<Rightarrow> state
     \<Rightarrow> (exn + forecast_result) \<times> state" where
  "run_forecast env now dataset_url model_type horizon g st =
     (case load_data_from_url env now dataset_url st of
        (Inl e, st1) \<Rightarrow> (Inl e, st1)
      | (Inr df, st1) \<Rightarrow>
          (case validate_data (objects st1 df) of
             Inl e \<Rightarrow> (Inl e, st1)
           | Inr _ \<Rightarrow>
               (case preprocess_data env df ''date'' ''sales'' g st1 of
                  (Inl e, st2) \<Rightarrow> (Inl e, st2)
                | (Inr (train_series, test_series), st2) \<Rightarrow>
                    (forecast_series env train_series test_series model_type horizon g, st2))))"

section \<open>Concrete inputs\<close>

text \<open>
  An environment to run the service on concrete inputs: the source answers every URL
  with the given table, the key of the cache is the string itself, numbers and dates
  are read from two small tables (a cell that already is a timestamp is kept), and
  both fitting libraries raise at every call.
\<close>

definition example_numbers :: "(string \<times> real) list" where
  "example_numbers = [(''5'', 5), (''100'', 100), (''1200'', 1200)]"

definition example_dates :: "(string \<times> timestamp) list" where
  "example_dates =
     [(''2024-01-01'', 1704067200), (''2024-01-02'', 1704153600),
      (''2024-01-03'', 1704240000), (''2024-01-04'', 1704326400),
      (''2024-01-05'', 1704412800), (''2024-01-06'', 1704499200),
      (''2024-01-07'', 1704585600), (''2024-01-08'', 1704672000),
      (''2024-01-09'', 1704758400), (''2024-01-10'', 1704844800)]"

definition example_env :: "dataframe \<Rightarrow> (unit, unit, unit) environment" where
  "example_env csv =
     \<lparr>fetch = (\<lambda>_. Inr csv),
      md5 = (\<lambda>s. s),
      to_numeric = map_of example_numbers,
      to_datetime = (\<lambda>c. case c of Str s \<Rightarrow> map_of example_dates s
                                | Stamp t \<Rightarrow> Some t
                                | _ \<Rightarrow> None),
      stats = failing_statsmodels,
      boost = failing_xgb\<rparr>"

definition empty_frame :: dataframe where
  "empty_frame = \<lparr>columns = [], dtypes = [], rows = []\<rparr>"

definition empty_state :: state where
  "empty_state = \<lparr>objects = (\<lambda>_. empty_frame), next_ref = 0, cache = (\<lambda>_. None)\<rparr>"

text \<open>
  A small table: two rows on 2024-01-01, one row with a date that cannot be read, one
  row on 2024-01-03, the date column as text. The sales are numbers in the first
  table and currency text in the second.
\<close>

definition example_sales :: dataframe where
  "example_sales =
     \<lparr>columns = [''date'', ''sales''],
      dtypes = [Object, Float],
      rows = [[Str ''2024-01-01'', Num 10],
              [Str ''2024-01-01'', Num 20],
              [Str ''n/a'', Num 7],
              [Str ''2024-01-03'', Num 5]]\<rparr>"

definition example_currency :: dataframe where
  "example_currency =
     \<lparr>columns = [''date'', ''sales''],
      dtypes = [Object, Object],
      rows = [[Str ''2024-01-01'', Str ''$1,200''],
              [Str ''n/a'', Str ''$5'']]\<rparr>"

text \<open>
  Ten raw rows with the value 100: nine consecutive days from 2024-01-01, and one row
  whose date cannot be read.
\<close>

definition example_ten_rows :: dataframe where
  "example_ten_rows =
     \<lparr>columns = [''date'', ''sales''],
      dtypes = [Object, Float],
      rows = [[Str ''2024-01-01'', Num 100], [Str ''2024-01-02'', Num 100],
              [Str ''2024-01-03'', Num 100], [Str ''2024-01-04'', Num 100],
              [Str ''2024-01-05'', Num 100], [Str ''n/a'', Num 100],
              [Str ''2024-01-06'', Num 100], [Str ''2024-01-07'', Num 100],
              [Str ''2024-01-08'', Num 100], [Str ''2024-01-09'', Num 100]]\<rparr>"

section \<open>Properties of the metrics engine\<close>

lemma py_round_of_int: "py_round n (of_int k) = of_int k"
proof -
  have "(of_int k :: real) * 10 ^ n = of_int (k * 10 ^ n)" by simp
  then have f: "\<lfloor>(of_int k :: real) * 10 ^ n\<rfloor> = k * 10 ^ n"
    by (metis floor_of_int)
  show ?thesis
    unfolding py_round_def Let_def f by simp
qed

lemma py_round_0: "py_round n 0 = 0"
  using py_round_of_int [of n 0] by simp

lemma py_round_1: "py_round n 1 = 1"
  using py_round_of_int [of n 1] by simp

lemma py_round_100: "py_round n 100 = 100"
  using py_round_of_int [of n 100] by simp

lemma zip_self: "zip xs xs = map (\<lambda>a. (a, a)) xs"
  by (induction xs) auto

lemma sum_list_zero: "sum_list (map (\<lambda>_. 0::real) xs) = 0"
  by (induction xs) auto

lemma ss_tot_pos:
  "a \<in> set xs \<Longrightarrow> a \<noteq> m \<Longrightarrow> 0 < sum_list (map (\<lambda>a::real. (a - m)\<^sup>2) xs)"
proof (induction xs)
  case Nil
  then show ?case by simp
next
  case (Cons y ys)
  have nn: "0 \<le> sum_list (map (\<lambda>a. (a - m)\<^sup>2) ys)"
    by (rule sum_list_nonneg) auto
  show ?case
  proof (cases "a = y")
    case True
    then have "0 < (y - m)\<^sup>2" using Cons.prems by simp
    then show ?thesis using nn by (simp add: add_pos_nonneg)
  next
    case False
    then have "0 < sum_list (map (\<lambda>a. (a - m)\<^sup>2) ys)" using Cons by simp
    moreover have "0 \<le> (y - m)\<^sup>2" by simp
    ultimately show ?thesis by (simp add: add_nonneg_pos)
  qed
qed

text \<open>
  C3, as the code has it. For a series \<open>x\<close> with two different values and a positive
  mean, scoring \<open>x\<close> against itself gives MAE 0, RMSE 0, MAPE 0, R-squared 1 and accuracy 100.
  The accuracy is 100 only under the guard \<^verbatim>\<open>mean_actual > 0\<close> of the code: a non-zero
  mean is not enough.
\<close>

theorem metrics_identity:
  assumes ne: "a \<in> set x" "b \<in> set x" "a \<noteq> b" and pos: "0 < mean x"
  shows "map_of (calculate_metrics x x) ''mae'' = Some (Fl 0)
       \<and> map_of (calculate_metrics x x) ''rmse'' = Some (Fl 0)
       \<and> map_of (calculate_metrics x x) ''mape'' = Some (Fl 0)
       \<and> map_of (calculate_metrics x x) ''r2'' = Some (Fl 1)
       \<and> map_of (calculate_metrics x x) ''accuracy'' = Some (Fl 100)"
proof -
  have nonempty: "x \<noteq> []" using ne by auto
  obtain c where c: "c \<in> set x" "c \<noteq> mean x" using ne by metis
  have tot: "0 < sum_list (map (\<lambda>a. (a - mean x)\<^sup>2) x)"
    using ss_tot_pos [OF c] .
  have m: "np_mean x = Fl (mean x)" using nonempty by (simp add: np_mean_def mean_def)
  have z1: "map (\<lambda>(a, p). \<bar>a - p\<bar>) (zip x x) = map (\<lambda>_. 0) x"
    by (simp add: zip_self comp_def)
  have z2: "map (\<lambda>(a, p). (a - p)\<^sup>2) (zip x x) = map (\<lambda>_. 0) x"
    by (simp add: zip_self comp_def)
  have mz: "np_mean (map (\<lambda>_. 0) x) = Fl 0"
    using nonempty by (simp add: np_mean_def sum_list_zero)
  have mae: "map_of (calculate_metrics x x) ''mae'' = Some (Fl 0)"
    by (simp add: calculate_metrics_def Let_def z1 mz py_round_0)
  have rmse: "map_of (calculate_metrics x x) ''rmse'' = Some (Fl 0)"
    by (simp add: calculate_metrics_def Let_def z2 mz py_round_0)
  have mape: "map_of (calculate_metrics x x) ''mape'' = Some (Fl 0)"
    by (simp add: calculate_metrics_def Let_def zip_self filter_map comp_def mean_def
        sum_list_zero py_round_0)
  have r2: "map_of (calculate_metrics x x) ''r2'' = Some (Fl 1)"
    using tot by (simp add: calculate_metrics_def Let_def z2 m sum_list_zero py_round_1)
  have acc: "map_of (calculate_metrics x x) ''accuracy'' = Some (Fl 100)"
    using pos by (simp add: calculate_metrics_def Let_def z1 mz m py_max_def py_round_100)
  show ?thesis using mae rmse mape r2 acc by blast
qed

theorem metrics_identity_witness:
  "map_of (calculate_metrics [1, 3] [1, 3]) ''mae'' = Some (Fl 0)
   \<and> map_of (calculate_metrics [1, 3] [1, 3]) ''rmse'' = Some (Fl 0)
   \<and> map_of (calculate_metrics [1, 3] [1, 3]) ''mape'' = Some (Fl 0)
   \<and> map_of (calculate_metrics [1, 3] [1, 3]) ''r2'' = Some (Fl 1)
   \<and> map_of (calculate_metrics [1, 3] [1, 3]) ''accuracy'' = Some (Fl 100)"
  using metrics_identity [of 1 "[1, 3]" 3] by (simp add: mean_def)

text \<open>
  C3 as stated fails: the series \<open>[-1, -3]\<close> is not constant and its mean \<open>-2\<close> is not
  zero, and its accuracy against itself is 0.
\<close>

theorem metrics_identity_negative_mean:
  "map_of (calculate_metrics [- 1, - 3] [- 1, - 3]) ''accuracy'' = Some (Fl 0)"
  by (simp add: calculate_metrics_def Let_def np_mean_def py_round_0)

section \<open>Properties of the forecasters\<close>

lemma iloc_last: "xs \<noteq> [] \<Longrightarrow> iloc xs (- 1) = Inr (last xs)"
  by (cases xs) (simp_all add: iloc_def last_conv_nth)

lemma last_le_Max: "xs \<noteq> [] \<Longrightarrow> last xs \<le> Max (set (xs::real list))"
  by simp

lemma fl_map_nan: "fl_map f r = NaN \<longleftrightarrow> r = NaN"
  by (cases r) auto

lemma map_numbers: "NaN \<notin> set xs \<Longrightarrow> NaN \<notin> set (map (fl_map f) xs)"
proof
  assume no: "NaN \<notin> set xs" and "NaN \<in> set (map (fl_map f) xs)"
  then obtain r where "r \<in> set xs" "fl_map f r = NaN" by auto
  then show False using no by (simp add: fl_map_nan)
qed

lemma safety_rails_bounds:
  assumes "data \<noteq> []" "0 \<le> last data"
  shows "\<exists>ps. safety_rails data h raw = Inr ps
           \<and> (\<forall>p\<in>set ps. p = NaN \<or> (\<exists>x. p = Fl x \<and> 0 \<le> x \<and> x \<le> Max (set data) * 10))
           \<and> (NaN \<notin> set raw \<longrightarrow> NaN \<notin> set ps)"
proof -
  have hm: "0 \<le> Max (set data)" using assms last_le_Max [of data] by linarith
  let ?clamped = "map (fl_map (\<lambda>p. max p 0)) raw"
  show ?thesis
  proof (cases "list_ex (\<lambda>p. fl_gt p (Fl (max (Max (set data) * 100) (10 ^ 9)))) ?clamped")
    case True
    then have "safety_rails data h raw = Inr (replicate h (Fl (last data)))"
      using assms by (simp add: safety_rails_def Let_def iloc_last bind_exn_def)
    moreover have "last data \<le> Max (set data) * 10"
      using hm last_le_Max [OF assms(1)] by linarith
    ultimately show ?thesis using assms by auto
  next
    case False
    then have eq: "safety_rails data h raw =
        Inr (map (fl_map (\<lambda>p. min p (Max (set data) * 10))) ?clamped)"
      using assms by (simp add: safety_rails_def Let_def)
    have each: "fl_map (\<lambda>p. min p (Max (set data) * 10)) (fl_map (\<lambda>p. max p 0) r) = NaN
        \<or> (\<exists>x. fl_map (\<lambda>p. min p (Max (set data) * 10)) (fl_map (\<lambda>p. max p 0) r) = Fl x
              \<and> 0 \<le> x \<and> x \<le> Max (set data) * 10)" for r
      using hm by (cases r) auto
    have bounds: "\<forall>p\<in>set (map (fl_map (\<lambda>p. min p (Max (set data) * 10))) ?clamped).
        p = NaN \<or> (\<exists>x. p = Fl x \<and> 0 \<le> x \<and> x \<le> Max (set data) * 10)"
      using each by auto
    have numbers: "NaN \<notin> set raw
        \<longrightarrow> NaN \<notin> set (map (fl_map (\<lambda>p. min p (Max (set data) * 10))) ?clamped)"
      using map_numbers by blast
    show ?thesis using eq bounds numbers by blast
  qed
qed

lemma safety_rails_divergence:
  assumes "data \<noteq> []" "p \<in> set raw" "fl_gt p (Fl (max (Max (set data) * 100) (10 ^ 9)))"
  shows "safety_rails data h raw = Inr (replicate h (Fl (last data)))"
proof -
  obtain x where x: "p = Fl x" "x > max (Max (set data) * 100) (10 ^ 9)"
    using assms(3) by (cases p) auto
  have "max x 0 > max (Max (set data) * 100) (10 ^ 9)" using x(2) by linarith
  then have gt: "fl_gt (fl_map (\<lambda>p. max p 0) p) (Fl (max (Max (set data) * 100) (10 ^ 9)))"
    using x(1) by simp
  have mem: "fl_map (\<lambda>p. max p 0) p \<in> set (map (fl_map (\<lambda>p. max p 0)) raw)"
    using assms(2) by simp
  have "list_ex (\<lambda>p. fl_gt p (Fl (max (Max (set data) * 100) (10 ^ 9))))
      (map (fl_map (\<lambda>p. max p 0)) raw)"
    unfolding list_ex_iff using gt mem by blast
  then show ?thesis
    using assms(1) by (simp add: safety_rails_def Let_def iloc_last bind_exn_def)
qed

text \<open>
  C1, as the code has it by design. For a non-empty series whose last observed value
  is not negative (every series of non-negative values is one), whatever statsmodels
  does, \<^verbatim>\<open>fit_predict\<close> returns, and every number it returns is at least 0 and at most
  \<open>historical_max * 10\<close>. All its values are numbers when statsmodels raises, and when
  the raw forecast has no \<^verbatim>\<open>nan\<close>. When statsmodels raises, and when a raw prediction is
  above \<open>max(historical_max * 100, 1e9)\<close>, the forecast is the last observed value
  repeated.
\<close>

theorem arima_output_bounds:
  assumes "data \<noteq> []" "0 \<le> last data"
  shows "\<exists>ps. arima_fit_predict lib self data h auto_order = Inr ps
          \<and> (\<forall>p\<in>set ps. p = NaN \<or> (\<exists>x. p = Fl x \<and> 0 \<le> x \<and> x \<le> Max (set data) * 10))
          \<and> (\<forall>e. raw_forecast lib self data h auto_order = Inl e
                 \<longrightarrow> ps = replicate h (Fl (last data)))
          \<and> (\<forall>raw. raw_forecast lib self data h auto_order = Inr raw
                 \<longrightarrow> (NaN \<notin> set raw \<longrightarrow> NaN \<notin> set ps)
                   \<and> ((\<exists>p\<in>set raw. fl_gt p (Fl (max (Max (set data) * 100) (10 ^ 9))))
                        \<longrightarrow> ps = replicate h (Fl (last data))))"
proof (cases "raw_forecast lib self data h auto_order")
  case (Inl e)
  have hm: "0 \<le> Max (set data)" using assms last_le_Max [of data] by linarith
  have "arima_fit_predict lib self data h auto_order = Inr (replicate h (Fl (last data)))"
    using Inl assms by (simp add: arima_fit_predict_def bind_exn_def iloc_last)
  moreover have "last data \<le> Max (set data) * 10"
    using hm last_le_Max [OF assms(1)] by linarith
  ultimately show ?thesis using assms Inl by auto
next
  case (Inr raw)
  obtain ps where ps: "safety_rails data h raw = Inr ps"
      "\<forall>p\<in>set ps. p = NaN \<or> (\<exists>x. p = Fl x \<and> 0 \<le> x \<and> x \<le> Max (set data) * 10)"
      "NaN \<notin> set raw \<longrightarrow> NaN \<notin> set ps"
    using safety_rails_bounds [OF assms] by blast
  have eq: "arima_fit_predict lib self data h auto_order = Inr ps"
    using Inr ps(1) by (simp add: arima_fit_predict_def bind_exn_def)
  have div: "ps = replicate h (Fl (last data))"
    if ex: "\<exists>p\<in>set raw. fl_gt p (Fl (max (Max (set data) * 100) (10 ^ 9)))"
  proof -
    obtain p where "p \<in> set raw" "fl_gt p (Fl (max (Max (set data) * 100) (10 ^ 9)))"
      using ex by blast
    then have "safety_rails data h raw = Inr (replicate h (Fl (last data)))"
      using safety_rails_divergence [OF assms(1)] by blast
    then show ?thesis using ps(1) by simp
  qed
  show ?thesis using eq ps(2,3) div Inr by auto
qed

text \<open>
  Witness: the all-zero series of length 3 with an exploding raw forecast. The forecast
  is replaced by the last value, 0. On the series \<open>[1, 2, 3]\<close> the raw forecast
  \<open>[50, -2]\<close> is clamped and capped to \<open>[30, 0]\<close>.
\<close>

theorem arima_output_bounds_witness:
  "arima_fit_predict (forecasting_statsmodels [Fl (10 ^ 10), Fl (10 ^ 11)]) ARIMAForecaster
     [0, 0, 0] 2 True = Inr [Fl 0, Fl 0]
   \<and> arima_fit_predict (forecasting_statsmodels [Fl 50, Fl (- 2)]) ARIMAForecaster
     [1, 2, 3] 2 True = Inr [Fl 30, Fl 0]"
proof -
  have capped: "arima_fit_predict (forecasting_statsmodels [Fl 50, Fl (- 2)]) ARIMAForecaster
      [1, 2, 3] 2 True = Inr [Fl 30, Fl 0]"
    by (simp add: arima_fit_predict_def raw_forecast_def auto_select_order_def
        forecasting_statsmodels_def safety_rails_def bind_exn_def lift_lib_def Let_def)
  have raw: "raw_forecast (forecasting_statsmodels [Fl (10 ^ 10), Fl (10 ^ 11)]) ARIMAForecaster
      [0, 0, 0] 2 True = Inr [Fl (10 ^ 10), Fl (10 ^ 11)]"
    by (simp add: raw_forecast_def auto_select_order_def forecasting_statsmodels_def
        bind_exn_def lift_lib_def Let_def)
  have ne: "[0, 0, 0] \<noteq> ([] :: real list)" by simp
  have l: "0 \<le> last [0, 0, 0 :: real]" by simp
  show ?thesis
    using arima_output_bounds [OF ne l, of "forecasting_statsmodels [Fl (10 ^ 10), Fl (10 ^ 11)]"
        ARIMAForecaster 2 True] raw capped
    by (auto simp: numeral_2_eq_2)
qed

text \<open>
  C1 as stated fails where the naive forecast is taken on a series whose last value is
  negative: on \<open>[5, -1]\<close> with a fit that raises, the handler returns the last observed
  value repeated, \<open>[-1, -1]\<close>.
\<close>

theorem arima_naive_forecast_negative:
  "arima_fit_predict failing_statsmodels ARIMAForecaster [5, - 1] 2 True
     = Inr [Fl (- 1), Fl (- 1)]"
  by (simp add: arima_fit_predict_def raw_forecast_def auto_select_order_def
      failing_statsmodels_def bind_exn_def lift_lib_def iloc_def numeral_2_eq_2)

text \<open>
  Two more ways to an output outside the bounds, both left out of the statement above:
  on a series whose maximum is negative the cap \<open>historical_max * 10\<close> lowers the
  predictions that step 1 of the rails has clamped at zero, and a \<^verbatim>\<open>nan\<close> of the raw
  forecast passes the three rails.
\<close>

lemma safety_rails_negative_maximum:
  "safety_rails [- 5, - 4, - 6] 2 [Fl 0, Fl 3] = Inr [Fl (- 40), Fl (- 40)]"
  by (simp add: safety_rails_def Let_def)

lemma safety_rails_nan: "safety_rails [1, 2] 2 [NaN, Fl 1] = Inr [NaN, Fl 1]"
  by (simp add: safety_rails_def Let_def)

lemma safety_rails_total: "\<exists>ps. safety_rails data h raw = Inr ps"
  by (cases "data = []") (auto simp: safety_rails_def Let_def iloc_last bind_exn_def)

lemma arima_total: "\<exists>ps. arima_fit_predict lib self data h ao = Inr ps"
proof (cases "bind_exn (raw_forecast lib self data h ao) (safety_rails data h)")
  case (Inl e)
  then show ?thesis
    by (cases "data = []") (simp_all add: arima_fit_predict_def bind_exn_def iloc_last)
next
  case (Inr ps)
  then show ?thesis by (simp add: arima_fit_predict_def)
qed

text \<open>With a statsmodels whose forecasts are numbers, so are the values of
  \<^verbatim>\<open>fit_predict\<close>.\<close>

lemma raw_forecast_numbers:
  "raw_forecast (as_floats lib) self data h ao = Inr raw \<Longrightarrow> NaN \<notin> set raw"
  by (auto simp: raw_forecast_def as_floats_def bind_exn_def lift_lib_def
      split: sum.splits if_splits)

lemma safety_rails_numbers:
  assumes "safety_rails data h raw = Inr ps" "NaN \<notin> set raw"
  shows "NaN \<notin> set ps"
proof -
  have clamped: "NaN \<notin> set (map (fl_map (\<lambda>p. max p 0)) raw)"
    using assms(2) by (rule map_numbers)
  have capped: "NaN \<notin> set (map (fl_map (\<lambda>p. min p c)) (map (fl_map (\<lambda>p. max p 0)) raw))" for c
    using clamped by (rule map_numbers)
  show ?thesis
  proof (cases "data = []")
    case True
    then show ?thesis using assms(1) clamped by (simp add: safety_rails_def Let_def)
  next
    case False
    show ?thesis
    proof (cases "list_ex (\<lambda>p. fl_gt p (Fl (max (Max (set data) * 100) (10 ^ 9))))
        (map (fl_map (\<lambda>p. max p 0)) raw)")
      case True
      then have "ps = replicate h (Fl (last data))"
        using assms(1) False by (simp add: safety_rails_def Let_def iloc_last bind_exn_def)
      then show ?thesis by simp
    next
      case no: False
      then have "ps = map (fl_map (\<lambda>p. min p (Max (set data) * 10)))
          (map (fl_map (\<lambda>p. max p 0)) raw)"
        using assms(1) False by (simp add: safety_rails_def Let_def)
      then show ?thesis using capped by simp
    qed
  qed
qed

lemma arima_numbers:
  assumes "arima_fit_predict (as_floats lib) self data h ao = Inr ps"
  shows "NaN \<notin> set ps"
proof (cases "bind_exn (raw_forecast (as_floats lib) self data h ao) (safety_rails data h)")
  case (Inl e)
  then show ?thesis
    using assms
    by (cases "data = []") (auto simp: arima_fit_predict_def bind_exn_def iloc_last)
next
  case (Inr qs)
  then obtain raw where raw: "raw_forecast (as_floats lib) self data h ao = Inr raw"
      "safety_rails data h raw = Inr qs"
    by (auto simp: bind_exn_def split: sum.splits)
  have "NaN \<notin> set qs"
    using safety_rails_numbers [OF raw(2)] raw_forecast_numbers [OF raw(1)] by blast
  moreover have "ps = qs" using assms Inr by (simp add: arima_fit_predict_def)
  ultimately show ?thesis by simp
qed

text \<open>
  C10. On the empty series \<^verbatim>\<open>fit_predict\<close> does not raise, and when the fit raises (at
  any of its library calls) it returns \<open>h\<close> zeros.
\<close>

theorem arima_empty_series:
  "(\<exists>ps. arima_fit_predict lib self [] h auto_order = Inr ps)
   \<and> (\<forall>e. raw_forecast lib self [] h auto_order = Inl e
          \<longrightarrow> arima_fit_predict lib self [] h auto_order = Inr (replicate h (Fl 0)))"
  using arima_total [of lib self "[]" h auto_order]
  by (simp add: arima_fit_predict_def bind_exn_def)

theorem arima_empty_series_witness:
  "arima_fit_predict failing_statsmodels ARIMAForecaster [] 3 True = Inr [Fl 0, Fl 0, Fl 0]"
proof -
  have "raw_forecast failing_statsmodels ARIMAForecaster [] 3 True
      = Inl (External (LibError ''adfuller''))"
    by (simp add: raw_forecast_def auto_select_order_def failing_statsmodels_def bind_exn_def
        lift_lib_def)
  then have "arima_fit_predict failing_statsmodels ARIMAForecaster [] 3 True
      = Inr (replicate 3 (Fl 0))"
    using arima_empty_series [of failing_statsmodels ARIMAForecaster 3 True] by blast
  then show ?thesis by (simp add: numeral_3_eq_3)
qed

lemma recursive_forecast_shape:
  "recursive_forecast lib model g cur k = Inr ps \<Longrightarrow> length ps = k \<and> (\<forall>p\<in>set ps. 0 \<le> p)"
proof (induction k arbitrary: cur ps)
  case 0
  then show ?case by simp
next
  case (Suc k)
  then show ?case
    by (auto simp: lift_lib_def Let_def split: sum.splits)
qed

text \<open>
  C9, as the code has it. On a non-empty series (of length 10 or more in particular),
  for every granularity and whatever the libraries do, \<^verbatim>\<open>fit_predict\<close> returns exactly
  \<open>h\<close> values. When fewer than 10 rows are complete, and when the fit or a step of the
  recursive prediction raises, they are the last observed value repeated (the naive
  forecast). When the recursive prediction runs through, they are its values, and all
  are non-negative.
\<close>

theorem xgb_output_shape:
  assumes "data \<noteq> []"
  shows "\<exists>ps. xgb_fit_predict lib n_lags data h g = Inr ps \<and> length ps = h
            \<and> (length (complete_rows g n_lags data) < 10 \<longrightarrow> ps = replicate h (last data))
            \<and> (\<forall>e. xgb_fit lib g data = Inl e \<longrightarrow> ps = replicate h (last data))
            \<and> (\<forall>model e. xgb_fit lib g data = Inr model
                   \<longrightarrow> recursive_forecast lib model g data h = Inl e
                   \<longrightarrow> ps = replicate h (last data))
            \<and> (\<forall>model qs. 10 \<le> length (complete_rows g n_lags data)
                   \<longrightarrow> xgb_fit lib g data = Inr model
                   \<longrightarrow> recursive_forecast lib model g data h = Inr qs
                   \<longrightarrow> ps = qs \<and> (\<forall>p\<in>set ps. 0 \<le> p))"
proof (cases "length (complete_rows g n_lags data) < 10")
  case True
  then have "xgb_fit_predict lib n_lags data h g = Inr (replicate h (last data))"
    using assms by (simp add: xgb_fit_predict_def iloc_last bind_exn_def)
  then show ?thesis using True by simp
next
  case False
  show ?thesis
  proof (cases "xgb_fit lib g data")
    case (Inl e)
    then have "xgb_fit_predict lib n_lags data h g = Inr (replicate h (last data))"
      using False assms by (simp add: xgb_fit_predict_def iloc_last bind_exn_def lift_lib_def)
    then show ?thesis using False Inl by simp
  next
    case fit: (Inr model)
    show ?thesis
    proof (cases "recursive_forecast lib model g data h")
      case (Inl e)
      then have "xgb_fit_predict lib n_lags data h g = Inr (replicate h (last data))"
        using False fit assms
        by (simp add: xgb_fit_predict_def iloc_last bind_exn_def lift_lib_def)
      then show ?thesis using False fit Inl by simp
    next
      case (Inr qs)
      then have eq: "xgb_fit_predict lib n_lags data h g = Inr qs"
        using False fit by (simp add: xgb_fit_predict_def bind_exn_def lift_lib_def)
      have shape: "length qs = h \<and> (\<forall>p\<in>set qs. 0 \<le> p)"
        using Inr by (rule recursive_forecast_shape)
      show ?thesis using eq shape False fit Inr by simp
    qed
  qed
qed

text \<open>
  Witness, on two series of length 10 and more. A weekly series of 22 values has 10
  complete rows: the model is fitted, and a model that predicts \<open>-3\<close> at every step gives
  the forecast \<open>[0, 0]\<close>. A daily series of 10 values has 3 complete rows, and the naive
  forecast is taken.
\<close>

lemma complete_rows_nonzero:
  assumes "\<forall>x\<in>set data. x \<noteq> 0"
  shows "complete_rows g n_lags data
       = filter (\<lambda>i. fold max (leading_missing g n_lags (length data)) 0 \<le> i) [0..<length data]"
  unfolding complete_rows_def Let_def
  by (rule filter_cong) (use assms in auto)

lemma weekly_complete_rows: "length (complete_rows Weekly 7 (replicate 22 1)) = 10"
proof -
  have w: "fold max (leading_missing Weekly 7 22) 0 = 12"
    by (simp add: leading_missing_def lag_periods_def rolling_windows_def)
  have "length (filter (\<lambda>i. (12::nat) \<le> i) [0..<22]) = 10" by code_simp
  then show ?thesis by (simp add: complete_rows_nonzero w)
qed

lemma daily_complete_rows: "length (complete_rows Daily 7 (replicate 10 4)) = 3"
proof -
  have w: "fold max (leading_missing Daily 7 10) 0 = 7"
    by (simp add: leading_missing_def lag_periods_def rolling_windows_def)
  have "length (filter (\<lambda>i. (7::nat) \<le> i) [0..<10]) = 3" by code_simp
  then show ?thesis by (simp add: complete_rows_nonzero w)
qed

lemma constant_forecast:
  "recursive_forecast (constant_xgb v) model g cur k = Inr (replicate k (max 0 v))"
  by (induction k arbitrary: cur) (simp_all add: constant_xgb_def lift_lib_def Let_def)

theorem xgb_output_shape_witness:
  "xgb_fit_predict (constant_xgb (- 3)) 7 (replicate 22 1) 2 Weekly = Inr [0, 0]
   \<and> xgb_fit_predict (constant_xgb 5) 7 (replicate 10 4) 2 Daily = Inr [4, 4]"
proof -
  have ne: "replicate 22 1 \<noteq> ([] :: real list)" "replicate 10 4 \<noteq> ([] :: real list)"
    by simp_all
  have fit: "xgb_fit (constant_xgb v) g data = Inr ()" for v g data
    by (simp add: constant_xgb_def)
  have run: "recursive_forecast (constant_xgb (- 3)) () Weekly (replicate 22 1) 2 = Inr [0, 0]"
    unfolding constant_forecast by (simp add: numeral_2_eq_2)
  have weekly: "xgb_fit_predict (constant_xgb (- 3)) 7 (replicate 22 1) 2 Weekly = Inr [0, 0]"
    using xgb_output_shape [OF ne(1), of "constant_xgb (- 3)" 7 2 Weekly]
      weekly_complete_rows fit [of "- 3" Weekly "replicate 22 1"] run
    by auto
  have daily: "xgb_fit_predict (constant_xgb 5) 7 (replicate 10 4) 2 Daily = Inr [4, 4]"
    using xgb_output_shape [OF ne(2), of "constant_xgb 5" 7 2 Daily] daily_complete_rows
    by (auto simp: numeral_2_eq_2)
  show ?thesis using weekly daily by simp
qed

text \<open>
  C9 as stated fails: a daily series of length 10 has at most 3 complete rows, so the
  naive forecast is taken, and it repeats the last observed value, here \<open>-1\<close>.
\<close>

theorem xgb_negative_fallback:
  "xgb_fit_predict (constant_xgb 5) 7 [1, 1, 1, 1, 1, 1, 1, 1, 1, - 1] 1 Daily = Inr [- 1]"
  by (simp add: xgb_fit_predict_def complete_rows_def leading_missing_def lag_periods_def
      rolling_windows_def Let_def iloc_def bind_exn_def upt_rec_numeral)

section \<open>Properties of the orchestrator\<close>

lemma py_round_nonneg: "0 \<le> x \<Longrightarrow> 0 \<le> py_round n x"
proof -
  assume x: "0 \<le> x"
  then have "0 \<le> x * 10 ^ n" by simp
  then have "0 \<le> \<lfloor>x * 10 ^ n\<rfloor>" by simp
  then have f: "(0::real) \<le> of_int \<lfloor>x * 10 ^ n\<rfloor>" by simp
  show ?thesis unfolding py_round_def Let_def using f by (auto intro!: divide_nonneg_nonneg)
qed

text \<open>The two scores the ranking reads are numbers, never \<^verbatim>\<open>nan\<close>, and an accuracy is
  not negative.\<close>

lemma accuracy_number:
  "\<exists>a. map_of (calculate_metrics xs ys) ''accuracy'' = Some (Fl a) \<and> 0 \<le> a"
proof -
  define mae where "mae = np_mean (map (\<lambda>(a, p). \<bar>a - p\<bar>)
      (zip (take (min (length xs) (length ys)) xs) (take (min (length xs) (length ys)) ys)))"
  define ma where "ma = np_mean (take (min (length xs) (length ys)) xs)"
  define acc where "acc = (if fl_gt ma (Fl 0)
      then py_max (Fl 0) (fl_map (\<lambda>w. (1 - w) * 100) (fl_map2 (\<lambda>x y. x / y) mae ma))
      else Fl 0)"
  have eq: "map_of (calculate_metrics xs ys) ''accuracy'' = Some (fl_map (py_round 2) acc)"
    by (simp add: calculate_metrics_def Let_def acc_def ma_def mae_def)
  have "\<exists>a. acc = Fl a \<and> 0 \<le> a"
    unfolding acc_def py_max_def
    by (cases "fl_map (\<lambda>w. (1 - w) * 100) (fl_map2 (\<lambda>x y. x / y) mae ma)") auto
  then obtain a where "acc = Fl a" "0 \<le> a" by blast
  then show ?thesis using eq py_round_nonneg [of a 2] by auto
qed

lemma r2_number: "\<exists>r. map_of (calculate_metrics xs ys) ''r2'' = Some (Fl r)"
  by (simp add: calculate_metrics_def Let_def)

lemma trial_score_number:
  "\<exists>a r. trial_score env m train test g vh = (Fl a, Fl r) \<and> 0 \<le> a"
proof (cases "run_model env m (map snd train) vh g")
  case (Inl e)
  then show ?thesis by (simp add: trial_score_def bind_exn_def)
next
  case (Inr ps)
  let ?m = "calculate_metrics (take vh (map snd test)) (take (length (take vh (map snd test))) ps)"
  obtain a where a: "map_of ?m ''accuracy'' = Some (Fl a)" "0 \<le> a"
    using accuracy_number by blast
  obtain r where r: "map_of ?m ''r2'' = Some (Fl r)" using r2_number by blast
  have "trial_score env m train test g vh = (Fl a, Fl r)"
    using Inr a r by (simp add: trial_score_def bind_exn_def dict_get_def Let_def)
  then show ?thesis using a by blast
qed

lemma trial_score_raises:
  "run_model env m (map snd train) vh g = Inl e
   \<Longrightarrow> trial_score env m train test g vh = (Fl 0, Fl (- 1))"
  by (simp add: trial_score_def bind_exn_def)

lemma trial_score_returns:
  "run_model env m (map snd train) vh g = Inr ps
   \<Longrightarrow> map_of (calculate_metrics (take vh (map snd test))
                 (take (length (take vh (map snd test))) ps)) ''accuracy''
          = Some (fst (trial_score env m train test g vh))
     \<and> map_of (calculate_metrics (take vh (map snd test))
                 (take (length (take vh (map snd test))) ps)) ''r2''
          = Some (snd (trial_score env m train test g vh))"
proof -
  assume run: "run_model env m (map snd train) vh g = Inr ps"
  let ?m = "calculate_metrics (take vh (map snd test)) (take (length (take vh (map snd test))) ps)"
  obtain a where a: "map_of ?m ''accuracy'' = Some (Fl a)" using accuracy_number by blast
  obtain r where r: "map_of ?m ''r2'' = Some (Fl r)" using r2_number by blast
  have "trial_score env m train test g vh = (Fl a, Fl r)"
    using run a r by (simp add: trial_score_def bind_exn_def dict_get_def Let_def)
  then show ?thesis using a r by simp
qed

text \<open>\<^verbatim>\<open>max\<close> over three items with numeric keys: the result is one of the items, and no
  key is above its key in the lexicographic order.\<close>

lemma max_by_key_three:
  "\<exists>mb ab rb.
     max_by_key (m1, Fl a1, Fl r1) [(m2, Fl a2, Fl r2), (m3, Fl a3, Fl r3)] = (mb, Fl ab, Fl rb)
     \<and> (mb, Fl ab, Fl rb) \<in> {(m1, Fl a1, Fl r1), (m2, Fl a2, Fl r2), (m3, Fl a3, Fl r3)}
     \<and> (a1 < ab \<or> (a1 = ab \<and> r1 \<le> rb))
     \<and> (a2 < ab \<or> (a2 = ab \<and> r2 \<le> rb))
     \<and> (a3 < ab \<or> (a3 = ab \<and> r3 \<le> rb))"
  by (auto simp: key_gt_def)

text \<open>
  C8. \<^verbatim>\<open>auto_select_model\<close> always returns. Its scores are those of the three concrete
  strategies, in the order baseline, statistical, boosted-tree, each from a trial at the
  horizon \<open>min(|validation|, 30)\<close>: the accuracy and r2 of \<^verbatim>\<open>calculate_metrics\<close> on the
  first values of the validation partition and the trial's predictions when the trial
  returns, and accuracy 0, r2 \<open>-1\<close> when it raises. The strategy returned is one of the
  three, and no strategy is above it in the lexicographic order of (accuracy, r2).
\<close>

theorem auto_select_model_picks_best:
  "\<exists>best. auto_select_model env train test g =
            Inr (best, map (\<lambda>m. (m, trial_score env m train test g (min (length test) 30)))
                         [Baseline, Arima, Xgboost])
     \<and> best \<in> {Baseline, Arima, Xgboost}
     \<and> (\<forall>m \<in> {Baseline, Arima, Xgboost}. \<exists>a r ab rb.
            trial_score env m train test g (min (length test) 30) = (Fl a, Fl r)
          \<and> trial_score env best train test g (min (length test) 30) = (Fl ab, Fl rb)
          \<and> (a < ab \<or> (a = ab \<and> r \<le> rb)))
     \<and> (\<forall>m e. run_model env m (map snd train) (min (length test) 30) g = Inl e
            \<longrightarrow> trial_score env m train test g (min (length test) 30) = (Fl 0, Fl (- 1)))
     \<and> (\<forall>m ps. run_model env m (map snd train) (min (length test) 30) g = Inr ps
            \<longrightarrow> map_of (calculate_metrics (take (min (length test) 30) (map snd test))
                           (take (length (take (min (length test) 30) (map snd test))) ps))
                   ''accuracy''
                  = Some (fst (trial_score env m train test g (min (length test) 30)))
              \<and> map_of (calculate_metrics (take (min (length test) 30) (map snd test))
                           (take (length (take (min (length test) 30) (map snd test))) ps))
                   ''r2''
                  = Some (snd (trial_score env m train test g (min (length test) 30))))"
proof -
  let ?vh = "min (length test) 30"
  let ?sc = "\<lambda>m. trial_score env m train test g ?vh"
  obtain a1 r1 where s1: "?sc Baseline = (Fl a1, Fl r1)" using trial_score_number by blast
  obtain a2 r2 where s2: "?sc Arima = (Fl a2, Fl r2)" using trial_score_number by blast
  obtain a3 r3 where s3: "?sc Xgboost = (Fl a3, Fl r3)" using trial_score_number by blast
  obtain mb ab rb where mx:
      "max_by_key (Baseline, Fl a1, Fl r1) [(Arima, Fl a2, Fl r2), (Xgboost, Fl a3, Fl r3)]
        = (mb, Fl ab, Fl rb)"
      "(mb, Fl ab, Fl rb) \<in> {(Baseline, Fl a1, Fl r1), (Arima, Fl a2, Fl r2), (Xgboost, Fl a3, Fl r3)}"
      "a1 < ab \<or> (a1 = ab \<and> r1 \<le> rb)"
      "a2 < ab \<or> (a2 = ab \<and> r2 \<le> rb)"
      "a3 < ab \<or> (a3 = ab \<and> r3 \<le> rb)"
    using max_by_key_three [of Baseline a1 r1 Arima a2 r2 Xgboost a3 r3] by blast
  have "auto_select_model env train test g =
      Inr (fst (max_by_key (Baseline, Fl a1, Fl r1) [(Arima, Fl a2, Fl r2), (Xgboost, Fl a3, Fl r3)]),
           map (\<lambda>m. (m, ?sc m)) [Baseline, Arima, Xgboost])"
    by (simp add: auto_select_model_def Let_def py_max_items_def bind_exn_def s1 s2 s3
        del: max_by_key.simps)
  then have sel: "auto_select_model env train test g =
      Inr (mb, map (\<lambda>m. (m, ?sc m)) [Baseline, Arima, Xgboost])"
    by (simp only: mx(1) fst_conv)
  have mem: "mb \<in> {Baseline, Arima, Xgboost}" using mx(2) by auto
  have sb: "?sc mb = (Fl ab, Fl rb)" using mx(2) s1 s2 s3 by auto
  have best: "\<forall>m \<in> {Baseline, Arima, Xgboost}. \<exists>a r ab rb.
      ?sc m = (Fl a, Fl r) \<and> ?sc mb = (Fl ab, Fl rb) \<and> (a < ab \<or> (a = ab \<and> r \<le> rb))"
    using s1 s2 s3 sb mx(3,4,5) by simp
  have raises: "\<forall>m e. run_model env m (map snd train) ?vh g = Inl e \<longrightarrow> ?sc m = (Fl 0, Fl (- 1))"
    using trial_score_raises by blast
  have returns: "\<forall>m ps. run_model env m (map snd train) ?vh g = Inr ps
      \<longrightarrow> map_of (calculate_metrics (take ?vh (map snd test))
                     (take (length (take ?vh (map snd test))) ps)) ''accuracy''
            = Some (fst (?sc m))
        \<and> map_of (calculate_metrics (take ?vh (map snd test))
                     (take (length (take ?vh (map snd test))) ps)) ''r2''
            = Some (snd (?sc m))"
    using trial_score_returns by blast
  show ?thesis using sel mem best raises returns by blast
qed

text \<open>
  Witness: an empty train series and one validation value. The baseline and the
  boosted-tree strategy raise, the statistical one forecasts 0 and is selected.
\<close>

lemma example_arima_trial:
  "run_model (example_env empty_frame) Arima [] (Suc 0) Daily = Inr [0]"
  by (simp add: run_model_def example_env_def arima_fit_predict_def raw_forecast_def
      auto_select_order_def failing_statsmodels_def as_floats_def bind_exn_def lift_lib_def)

lemma example_baseline_trial:
  "run_model (example_env empty_frame) Baseline [] (Suc 0) Daily = Inl IndexError"
  by (simp add: run_model_def seasonal_naive_def seasonal_naive_value_def iloc_def Let_def)

lemma example_xgboost_trial:
  "run_model (example_env empty_frame) Xgboost [] (Suc 0) Daily = Inl IndexError"
  by (simp add: run_model_def xgb_fit_predict_def complete_rows_def Let_def iloc_def bind_exn_def)

lemma example_arima_score:
  "trial_score (example_env empty_frame) Arima [] [(0, 5)] Daily (Suc 0) = (Fl 0, Fl 0)"
  by (simp add: trial_score_def example_arima_trial bind_exn_def calculate_metrics_def Let_def
      np_mean_def py_max_def py_round_0 dict_get_def)

theorem auto_select_model_witness:
  "auto_select_model (example_env empty_frame) [] [(0, 5)] Daily
     = Inr (Arima, [(Baseline, Fl 0, Fl (- 1)), (Arima, Fl 0, Fl 0), (Xgboost, Fl 0, Fl (- 1))])"
  using auto_select_model_picks_best [of "example_env empty_frame" "[]" "[(0, 5)]" Daily]
  by (simp add: auto_select_model_def Let_def example_arima_score trial_score_def [of _ Baseline]
      trial_score_def [of _ Xgboost] example_baseline_trial example_xgboost_trial bind_exn_def
      py_max_items_def key_gt_def)

text \<open>
  C4, as the code has it. In the scoring step, when the validation partition is empty
  and \<open>min(horizon, |train| div 5)\<close> is 0, the metrics are the dictionary of the four
  scores mae, rmse, mape and accuracy, each 0.
\<close>

theorem score_step_default:
  "test = [] \<Longrightarrow> min horizon (length train div 5) = 0 \<Longrightarrow>
   score_step train test predictions horizon =
     [(''mae'', Fl 0), (''rmse'', Fl 0), (''mape'', Fl 0), (''accuracy'', Fl 0)]"
  by (simp add: score_step_def)

theorem score_step_default_witness:
  "score_step [1, 2, 3, 4] [] [5, 5] 2 =
     [(''mae'', Fl 0), (''rmse'', Fl 0), (''mape'', Fl 0), (''accuracy'', Fl 0)]"
  using score_step_default [of "[]" 2 "[1, 2, 3, 4]" "[5, 5]"] by simp

text \<open>
  C4 as stated fails: the default dictionary has no entry for smape (nor for r2 and
  rmsse).
\<close>

theorem score_step_default_no_smape:
  "map_of (score_step [] [] [0] 1) ''smape'' = None"
  by (simp add: score_step_def)

text \<open>
  The formatting step. Daily and weekly dates continue the grid of the train series, and
  there is one dated prediction per value up to the horizon.
\<close>

lemma tl_map_upt: "tl (map f [0..<Suc h]) = map (\<lambda>i. f (Suc i)) [0..<h]"
  by (simp add: map_upt_Suc del: upt_Suc)

lemma day_of_midnight: "day_of (midnight d) = d" "time_of_day (midnight d) = 0"
  by (simp_all add: day_of_def midnight_def time_of_day_def)

lemma sunday_label: "sunday_on_or_after (7 * k + 3) = 7 * k + 3"
  by (simp add: sunday_on_or_after_def)

lemma future_dates_daily:
  "future_dates Daily (label Rule_D k) h = Inr (map (\<lambda>i. label Rule_D (k + 1 + int i)) [0..<h])"
  by (simp add: future_dates_def date_range_def tl_map_upt label_def midnight_def algebra_simps
      del: upt_Suc)

lemma future_dates_weekly:
  "future_dates Weekly (label Rule_W k) h = Inr (map (\<lambda>i. label Rule_W (k + 1 + int i)) [0..<h])"
  by (simp add: future_dates_def date_range_def tl_map_upt label_def day_of_midnight sunday_label
      del: upt_Suc)

lemma format_step_length:
  "format_step train ps h g = Inr out \<Longrightarrow> length out = min h (length ps)"
  by (cases g)
    (auto simp: format_step_def bind_exn_def future_dates_def date_range_def split: sum.splits)

lemma example_march_label:
  "label Rule_MS (bucket Rule_MS (midnight (days_from_civil 2024 3 1)))
     = midnight (days_from_civil 2024 3 1)"
  by code_simp

lemma example_april_label:
  "strftime_ymd (label Rule_MS (bucket Rule_MS (midnight (days_from_civil 2024 3 1)) + 1))
     = (2024, 4, 1)"
  by code_simp

lemma example_future_months:
  "future_dates Monthly (midnight (days_from_civil 2024 3 1)) 2
     = Inr [midnight (days_from_civil 2024 4 30), midnight (days_from_civil 2024 5 31)]"
  by code_simp

lemma example_april_30: "strftime_ymd (midnight (days_from_civil 2024 4 30)) = (2024, 4, 30)"
  by code_simp

lemma example_may_31: "strftime_ymd (midnight (days_from_civil 2024 5 31)) = (2024, 5, 31)"
  by code_simp

text \<open>
  C6 on the code, monthly granularity. The train series ends at 2024-03-01, a label of
  the month-start grid of the preprocessor, whose next label is 2024-04-01. The
  formatting step dates the two predictions 2024-04-30 and 2024-05-31: it asks
  \<^verbatim>\<open>date_range\<close> for the month-end frequency \<^verbatim>\<open>'M'\<close>.
\<close>

theorem monthly_future_dates_are_month_ends:
  "format_step [(midnight (days_from_civil 2024 3 1), 100)] [7, 8] 2 Monthly
     = Inr [((2024, 4, 30), 7), ((2024, 5, 31), 8)]
   \<and> label Rule_MS (bucket Rule_MS (midnight (days_from_civil 2024 3 1)))
       = midnight (days_from_civil 2024 3 1)
   \<and> strftime_ymd (label Rule_MS (bucket Rule_MS (midnight (days_from_civil 2024 3 1)) + 1))
       = (2024, 4, 1)"
proof -
  have last: "iloc (map fst [(midnight (days_from_civil 2024 3 1), 100::real)]) (- 1)
      = Inr (midnight (days_from_civil 2024 3 1))"
    by (simp add: iloc_def)
  have "format_step [(midnight (days_from_civil 2024 3 1), 100)] [7, 8] 2 Monthly
      = Inr [((2024, 4, 30), 7), ((2024, 5, 31), 8)]"
    unfolding format_step_def last
    by (simp add: bind_exn_def example_future_months example_april_30 example_may_31)
  then show ?thesis using example_march_label example_april_label by simp
qed

section \<open>Properties of the calendar\<close>

text \<open>The first days of consecutive months are in strictly increasing order, and so are
  the labels of consecutive bins of every resampling rule.\<close>

lemma divmod_400:
  "0 \<le> b \<Longrightarrow> b < 400 \<Longrightarrow> (400 * a + b) div 400 = a \<and> (400 * a + b) mod 400 = b" for a b :: int
  by (simp add: div_pos_pos_trivial mod_pos_pos_trivial)

lemma div_100_step: "r div 100 \<le> (r - 1) div 100 + 1" for r :: int
proof -
  have "r div 100 \<le> ((r - 1) + 100) div 100" by (rule zdiv_mono1) simp_all
  also have "\<dots> = (r - 1) div 100 + 1" by simp
  finally show ?thesis .
qed

lemma div_4_step: "(r - 1) div 4 \<le> r div 4" for r :: int
  by (simp add: zdiv_mono1)

lemma year_step_linear:
  "a \<le> b + 1 \<Longrightarrow> c \<le> d \<Longrightarrow>
   e * 146097 + (r - 1) * 365 + c - b + 364 \<le> e * 146097 + r * 365 + d - a" for a b c d e r :: int
  by (simp add: algebra_simps)

lemma year_step_within_era:
  "e * 146097 + (r - 1) * 365 + (r - 1) div 4 - (r - 1) div 100 + 364
   \<le> e * 146097 + r * 365 + r div 4 - r div 100" for e r :: int
  by (rule year_step_linear [OF div_100_step div_4_step])

lemma year_step_across_eras:
  "(e - 1) * 146097 + 399 * 365 + 399 div 4 - 399 div 100 + 364
   \<le> e * 146097 + 0 * 365 + 0 div 4 - 0 div 100" for e :: int
  by simp

lemma year_step:
  "((y - 1) div 400) * 146097 + ((y - 1) mod 400) * 365 + ((y - 1) mod 400) div 4
      - ((y - 1) mod 400) div 100 + 364
   \<le> (y div 400) * 146097 + (y mod 400) * 365 + (y mod 400) div 4 - (y mod 400) div 100"
    for y :: int
proof -
  define e where "e = y div 400"
  define r where "r = y mod 400"
  have y: "y = 400 * e + r" and r: "0 \<le> r" "r < 400" by (simp_all add: e_def r_def)
  have cur: "y div 400 = e" "y mod 400 = r" by (simp_all add: e_def r_def)
  show ?thesis
  proof (cases "r = 0")
    case True
    have eq: "y - 1 = 400 * (e - 1) + 399" using y True by simp
    have "(400 * (e - 1) + 399) div 400 = e - 1 \<and> (400 * (e - 1) + 399) mod 400 = 399"
      by (rule divmod_400) simp_all
    then have prev: "(y - 1) div 400 = e - 1" "(y - 1) mod 400 = 399"
      unfolding eq by blast+
    show ?thesis unfolding prev cur True by (rule year_step_across_eras)
  next
    case False
    then have r1: "0 \<le> r - 1" "r - 1 < 400" using r by simp_all
    have eq: "y - 1 = 400 * e + (r - 1)" using y by simp
    have "(400 * e + (r - 1)) div 400 = e \<and> (400 * e + (r - 1)) mod 400 = r - 1"
      using r1 by (rule divmod_400)
    then have prev: "(y - 1) div 400 = e" "(y - 1) mod 400 = r - 1"
      unfolding eq by blast+
    show ?thesis unfolding prev cur by (rule year_step_within_era)
  qed
qed

lemma less_from_year_step:
  "a + 364 \<le> b \<Longrightarrow> a + 337 - 719468 < b - 719468" for a b :: int
  by simp

lemma feb_march: "days_from_civil y 2 1 < days_from_civil y 3 1"
proof -
  have yoe: "x - x div 400 * 400 = x mod 400" for x :: int
    by (simp add: minus_div_mult_eq_mod)
  have feb: "days_from_civil y 2 1 =
      ((y - 1) div 400) * 146097 + ((y - 1) mod 400) * 365 + ((y - 1) mod 400) div 4
        - ((y - 1) mod 400) div 100 + 337 - 719468"
    unfolding days_from_civil_def Let_def yoe by simp
  have mar: "days_from_civil y 3 1 =
      (y div 400) * 146097 + (y mod 400) * 365 + (y mod 400) div 4 - (y mod 400) div 100 - 719468"
    unfolding days_from_civil_def Let_def yoe by simp
  show ?thesis unfolding feb mar by (rule less_from_year_step [OF year_step])
qed
lemma month_start_split:
  "0 \<le> j \<Longrightarrow> j < 12 \<Longrightarrow> month_start (12 * y + j) = days_from_civil y (j + 1) 1"
  by (simp add: month_start_def div_pos_pos_trivial)

lemma same_year_step:
  "j \<in> {0, 2, 3, 4, 5, 6, 7, 8, 9, 10} \<Longrightarrow> days_from_civil y (j + 1) 1 < days_from_civil y (j + 2) 1"
  unfolding days_from_civil_def Let_def by auto

lemma dec_jan: "days_from_civil y 12 1 < days_from_civil (y + 1) 1 1"
  unfolding days_from_civil_def Let_def by simp

lemma month_start_step: "month_start k < month_start (k + 1)"
proof -
  define y where "y = k div 12"
  define j where "j = k mod 12"
  have k: "k = 12 * y + j" and j: "0 \<le> j" "j < 12" by (simp_all add: y_def j_def)
  have b: "month_start k = days_from_civil y (j + 1) 1"
    unfolding k using j by (rule month_start_split)
  show ?thesis
  proof (cases "j = 11")
    case True
    have "k + 1 = 12 * (y + 1) + 0" using k True by simp
    moreover have "month_start (12 * (y + 1) + 0) = days_from_civil (y + 1) (0 + 1) 1"
      by (rule month_start_split) simp_all
    ultimately have a: "month_start (k + 1) = days_from_civil (y + 1) 1 1"
      by (simp add: algebra_simps)
    show ?thesis using a b dec_jan True by simp
  next
    case False
    then have j': "0 \<le> j + 1" "j + 1 < 12" using j by simp_all
    have "k + 1 = 12 * y + (j + 1)" using k by simp
    moreover have "month_start (12 * y + (j + 1)) = days_from_civil y (j + 1 + 1) 1"
      using j' by (rule month_start_split)
    ultimately have a: "month_start (k + 1) = days_from_civil y (j + 2) 1"
      by (simp add: add.assoc)
    have "j = 1 \<or> j \<in> {0, 2, 3, 4, 5, 6, 7, 8, 9, 10}" using j False by simp arith
    then show ?thesis
    proof
      assume "j = 1"
      then show ?thesis using a b feb_march by simp
    next
      assume "j \<in> {0, 2, 3, 4, 5, 6, 7, 8, 9, 10}"
      then show ?thesis using a b same_year_step by simp
    qed
  qed
qed

lemma month_start_mono: "k < k' \<Longrightarrow> month_start k < month_start k'"
proof -
  assume "k < k'"
  then obtain n where "k' = k + 1 + int n"
    by (metis zless_iff_Suc_zadd add.assoc of_nat_Suc add.commute)
  moreover have "month_start k < month_start (k + 1 + int n)"
  proof (induction n)
    case 0
    then show ?case using month_start_step by simp
  next
    case (Suc n)
    have "month_start (k + 1 + int n) < month_start (k + 1 + int n + 1)" by (rule month_start_step)
    then show ?case using Suc by (simp add: algebra_simps)
  qed
  ultimately show ?thesis by simp
qed

lemma label_mono: "k < k' \<Longrightarrow> label r k < label r k'"
  by (cases r) (simp_all add: label_def midnight_def month_start_mono)


section \<open>Properties of the preprocessor\<close>

lemma label_inj: "label r k = label r k' \<Longrightarrow> k = k'"
  by (metis label_mono linorder_neqE_linordered_idom order_less_irrefl)

lemma resample_index:
  "s \<noteq> [] \<Longrightarrow> map fst (resample_sum r s)
     = map (label r) [Min (set (map (\<lambda>row. bucket r (fst row)) s))..Max (set (map (\<lambda>row. bucket r (fst row)) s))]"
  by (simp add: resample_sum_def Let_def comp_def)

lemma sorted_labels: "sorted_wrt (<) (map (label r) [i..j])"
  by (simp add: sorted_wrt_map sorted_wrt_mono_rel [OF _ sorted_wrt_upto] label_mono)

lemma resample_sorted: "sorted_wrt (<) (map fst (resample_sum r s))"
proof (cases "s = []")
  case True
  then show ?thesis by (simp add: resample_sum_def)
next
  case False
  then show ?thesis using resample_index [OF False, of r] sorted_labels [of r] by simp
qed

lemma resample_value:
  assumes "s \<noteq> []"
    and "k \<in> {Min (set (map (\<lambda>row. bucket r (fst row)) s))..Max (set (map (\<lambda>row. bucket r (fst row)) s))}"
  shows "map_of (resample_sum r s) (label r k)
     = Some (sum_list (map snd (filter (\<lambda>row. bucket r (fst row) = k) s)))"
proof -
  have d: "distinct (map fst (resample_sum r s))"
    using resample_sorted strict_sorted_iff by blast
  have "(label r k, sum_list (map snd (filter (\<lambda>row. bucket r (fst row) = k) s))) \<in> set (resample_sum r s)"
    using assms by (auto simp: resample_sum_def Let_def)
  then show ?thesis by (rule map_of_is_SomeI [OF d])
qed

lemma indicator_sum:
  "distinct ts \<Longrightarrow> sum_list (map (\<lambda>t. if t = t0 then (v::real) else 0) ts) = (if t0 \<in> set ts then v else 0)"
  by (induction ts) auto

lemma regroup_aux:
  "distinct ts \<Longrightarrow> fst ` set s \<subseteq> set ts \<Longrightarrow>
   sum_list (map (\<lambda>t. sum_list (map snd (filter (\<lambda>row. fst row = t) s))) (filter Q ts))
     = sum_list (map snd (filter (\<lambda>row. Q (fst row)) (s :: ('a \<times> real) list)))"
proof (induction s)
  case Nil
  then show ?case by (induction ts) auto
next
  case (Cons x s)
  have d: "distinct (filter Q ts)" using Cons.prems by simp
  have "sum_list (map (\<lambda>t. sum_list (map snd (filter (\<lambda>row. fst row = t) (x # s)))) (filter Q ts))
      = sum_list (map (\<lambda>t. (if t = fst x then snd x else 0) + sum_list (map snd (filter (\<lambda>row. fst row = t) s))) (filter Q ts))"
    by (intro arg_cong [where f = sum_list] map_cong) auto
  also have "\<dots> = sum_list (map (\<lambda>t. if t = fst x then snd x else 0) (filter Q ts))
                  + sum_list (map (\<lambda>t. sum_list (map snd (filter (\<lambda>row. fst row = t) s))) (filter Q ts))"
    by (simp add: sum_list_addf)
  also have "\<dots> = (if Q (fst x) then snd x else 0) + sum_list (map snd (filter (\<lambda>row. Q (fst row)) s))"
    using Cons indicator_sum [OF d, of "fst x" "snd x"] by auto
  finally show ?case by simp
qed

lemma group_sum_keys: "fst ` set (group_sum s) = fst ` set s"
  by (force simp: group_sum_def image_iff)

lemma group_sum_bucket:
  "sum_list (map snd (filter (\<lambda>row. bucket r (fst row) = k) (group_sum s)))
     = sum_list (map snd (filter (\<lambda>row. bucket r (fst row) = k) s))"
proof -
  let ?ts = "sort (remdups (map fst s))"
  have d: "distinct ?ts" by simp
  have sub: "fst ` set s \<subseteq> set ?ts" by simp
  have "filter (\<lambda>row. bucket r (fst row) = k) (group_sum s)
      = map (\<lambda>t. (t, sum_list (map snd (filter (\<lambda>row. fst row = t) s)))) (filter (\<lambda>t. bucket r t = k) ?ts)"
    by (simp add: group_sum_def filter_map comp_def)
  then have "sum_list (map snd (filter (\<lambda>row. bucket r (fst row) = k) (group_sum s)))
      = sum_list (map (\<lambda>t. sum_list (map snd (filter (\<lambda>row. fst row = t) s))) (filter (\<lambda>t. bucket r t = k) ?ts))"
    by (simp add: comp_def)
  also have "\<dots> = sum_list (map snd (filter (\<lambda>row. bucket r (fst row) = k) s))"
    using regroup_aux [OF d sub, of "\<lambda>t. bucket r t = k"] by simp
  finally show ?thesis .
qed

lemma nth_labels:
  "i < length [lo..hi] \<Longrightarrow> map (label r) [lo..hi] ! i = label r (lo + int i)"
  by (simp add: nth_upto) 

lemma preprocess_result:
  assumes "preprocess_data env df date_col0 value_col0 g st = (Inr (train, test), st')"
  shows "\<exists>date_col value_col.
           clean_columns env (objects st df) date_col0 value_col0
             = Inr (date_col, value_col, objects st' df)
         \<and> train @ test = resample_at g (group_sum (dated_rows (objects st' df) date_col value_col))"
proof -
  obtain date_col value_col cleaned where
    c: "clean_columns env (objects st df) date_col0 value_col0 = Inr (date_col, value_col, cleaned)"
    and b: "build_series cleaned date_col value_col g = Inr (train, test)"
    and s: "st' = st\<lparr>objects := (objects st)(df := cleaned)\<rparr>"
    using assms by (auto simp: preprocess_data_def split: sum.splits prod.splits)
  have "train @ test = resample_at g (group_sum (dated_rows cleaned date_col value_col))"
    using b by (auto simp: build_series_def Let_def split: if_splits)
  then show ?thesis using c s by auto
qed

text \<open>
  C5. When \<^verbatim>\<open>preprocess_data\<close> returns, for the granularity daily, weekly or monthly
  with its rule \<open>r\<close>, the series (train followed by validation) is this. Let the raw
  rows be the rows of the cleaned frame that have a date, under the date and value
  columns the cleaning has settled on. The series is empty when there is
  none. Otherwise its timestamps are the labels of all bins from the first to the last
  bin a raw row falls into, one after the other (so consecutive timestamps are the
  labels of consecutive bins: one day, one week or one month apart), they are strictly
  increasing and distinct, the value at a bin is the sum of the raw rows in it, and it
  is 0 for a bin no raw row falls into.
\<close>

theorem preprocess_series_grid:
  assumes "preprocess_data env df date_col0 value_col0 g st = (Inr (train, test), st')"
      and "resample_rule g = Some r"
  shows "sorted_wrt (<) (map fst (train @ test))
   \<and> distinct (map fst (train @ test))
   \<and> (\<exists>date_col value_col lo hi.
     clean_columns env (objects st df) date_col0 value_col0
       = Inr (date_col, value_col, objects st' df)
   \<and> (dated_rows (objects st' df) date_col value_col = [] \<longrightarrow> train @ test = [])
   \<and> (dated_rows (objects st' df) date_col value_col \<noteq> [] \<longrightarrow>
        lo = Min (set (map (\<lambda>row. bucket r (fst row)) (dated_rows (objects st' df) date_col value_col)))
      \<and> hi = Max (set (map (\<lambda>row. bucket r (fst row)) (dated_rows (objects st' df) date_col value_col)))
      \<and> map fst (train @ test) = map (label r) [lo..hi]
      \<and> (\<forall>k\<in>{lo..hi}. map_of (train @ test) (label r k)
            = Some (sum_list (map snd (filter (\<lambda>row. bucket r (fst row) = k)
                       (dated_rows (objects st' df) date_col value_col)))))
      \<and> (\<forall>k\<in>{lo..hi}. (\<forall>row\<in>set (dated_rows (objects st' df) date_col value_col). bucket r (fst row) \<noteq> k)
            \<longrightarrow> map_of (train @ test) (label r k) = Some 0))
   \<and> (\<forall>i. Suc i < length (train @ test) \<longrightarrow>
          (\<exists>k. fst ((train @ test) ! i) = label r k
             \<and> fst ((train @ test) ! Suc i) = label r (k + 1))))"
proof -
  obtain date_col value_col where
    cols: "clean_columns env (objects st df) date_col0 value_col0
             = Inr (date_col, value_col, objects st' df)"
    and res: "train @ test = resample_at g (group_sum (dated_rows (objects st' df) date_col value_col))"
    using preprocess_result [OF assms(1)] by blast
  let ?raw = "dated_rows (objects st' df) date_col value_col"
  let ?ks = "set (map (\<lambda>row. bucket r (fst row)) ?raw)"
  have ser: "train @ test = resample_sum r (group_sum ?raw)"
    using res assms(2) by (simp add: resample_at_def)
  have keys: "set (map (\<lambda>row. bucket r (fst row)) (group_sum ?raw)) = ?ks"
    using group_sum_keys [of ?raw] by (simp add: image_image [symmetric] del: image_image) 
  have ne: "group_sum ?raw \<noteq> []" if "?raw \<noteq> []"
    using that group_sum_keys [of ?raw] by (cases ?raw) auto
  have empty: "?raw = [] \<longrightarrow> train @ test = []"
    by (simp add: ser group_sum_def resample_sum_def)
  have idx: "map fst (train @ test) = map (label r) [Min ?ks..Max ?ks]" if "?raw \<noteq> []"
    using resample_index [OF ne [OF that], of r] keys ser by simp
  have val: "map_of (train @ test) (label r k)
            = Some (sum_list (map snd (filter (\<lambda>row. bucket r (fst row) = k) ?raw)))"
    if "?raw \<noteq> []" "k \<in> {Min ?ks..Max ?ks}" for k
    using resample_value [OF ne [OF that(1)], of k r] that(2) keys ser group_sum_bucket [of r k ?raw]
    by simp
  have zero: "map_of (train @ test) (label r k) = Some 0"
    if "?raw \<noteq> []" "k \<in> {Min ?ks..Max ?ks}" "\<forall>row\<in>set ?raw. bucket r (fst row) \<noteq> k" for k
  proof -
    have "filter (\<lambda>row. bucket r (fst row) = k) ?raw = []"
      using that(3) by (simp add: filter_empty_conv)
    then show ?thesis using val [OF that(1,2)] by simp
  qed
  have sorted: "sorted_wrt (<) (map fst (train @ test))"
    unfolding ser by (rule resample_sorted)
  then have dist: "distinct (map fst (train @ test))"
    using strict_sorted_iff by blast
  have step: "\<exists>k. fst ((train @ test) ! i) = label r k
      \<and> fst ((train @ test) ! Suc i) = label r (k + 1)"
    if i: "Suc i < length (train @ test)" for i
  proof -
    have ne': "?raw \<noteq> []" using i empty by auto
    have len: "length [Min ?ks..Max ?ks] = length (train @ test)"
      using idx [OF ne'] by (metis length_map)
    have "fst ((train @ test) ! i) = map fst (train @ test) ! i"
      using i by (simp del: map_append)
    also have "\<dots> = label r (Min ?ks + int i)"
      unfolding idx [OF ne'] using i len by (intro nth_labels) simp
    finally have a: "fst ((train @ test) ! i) = label r (Min ?ks + int i)" .
    have "fst ((train @ test) ! Suc i) = map fst (train @ test) ! Suc i"
      using i by (simp del: map_append)
    also have "\<dots> = label r (Min ?ks + int (Suc i))"
      unfolding idx [OF ne'] using i len by (intro nth_labels) simp
    finally have b: "fst ((train @ test) ! Suc i) = label r (Min ?ks + int i + 1)"
      by (simp add: algebra_simps)
    show ?thesis using a b by blast
  qed
  have "\<exists>date_col value_col lo hi.
     clean_columns env (objects st df) date_col0 value_col0
       = Inr (date_col, value_col, objects st' df)
   \<and> (dated_rows (objects st' df) date_col value_col = [] \<longrightarrow> train @ test = [])
   \<and> (dated_rows (objects st' df) date_col value_col \<noteq> [] \<longrightarrow>
        lo = Min (set (map (\<lambda>row. bucket r (fst row)) (dated_rows (objects st' df) date_col value_col)))
      \<and> hi = Max (set (map (\<lambda>row. bucket r (fst row)) (dated_rows (objects st' df) date_col value_col)))
      \<and> map fst (train @ test) = map (label r) [lo..hi]
      \<and> (\<forall>k\<in>{lo..hi}. map_of (train @ test) (label r k)
            = Some (sum_list (map snd (filter (\<lambda>row. bucket r (fst row) = k)
                       (dated_rows (objects st' df) date_col value_col)))))
      \<and> (\<forall>k\<in>{lo..hi}. (\<forall>row\<in>set (dated_rows (objects st' df) date_col value_col). bucket r (fst row) \<noteq> k)
            \<longrightarrow> map_of (train @ test) (label r k) = Some 0))
   \<and> (\<forall>i. Suc i < length (train @ test) \<longrightarrow>
          (\<exists>k. fst ((train @ test) ! i) = label r k
             \<and> fst ((train @ test) ! Suc i) = label r (k + 1)))"
    using cols empty idx val zero step by blast
  then show ?thesis using sorted dist by blast
qed

lemma split_idx_eq: "split_idx n = (4 * n) div 5"
proof -
  have "real n * 0.8 = real (4 * n) / real 5" by simp
  then have "\<lfloor>real n * 0.8\<rfloor> = \<lfloor>real (4 * n) / real 5\<rfloor>" by (simp only:)
  also have "\<dots> = int ((4 * n) div 5)" by (rule floor_divide_of_nat_eq)
  finally show ?thesis by (simp add: split_idx_def)
qed

lemma example_sales_cleaned:
  "clean_columns (example_env f) example_sales ''date'' ''sales''
  = Inr (''date'', ''sales'', \<lparr>columns = [''date'', ''sales''],
      dtypes = [Datetime, Float],
      rows = [[Stamp 1704067200, Num 10],
              [Stamp 1704067200, Num 20],
              [Null, Num 7],
              [Stamp 1704240000, Num 5]]\<rparr>)"
  by (simp add: clean_columns_def detect_date_col_def detect_value_col_def example_sales_def bind_exn_def
      dtype_of_def assign_def column_def cell_at_def parse_date_def example_env_def example_dates_def Let_def)

lemma example_sales_dated:
  "dated_rows \<lparr>columns = [''date'', ''sales''],
      dtypes = [Datetime, Float],
      rows = [[Stamp 1704067200, Num 10],
              [Stamp 1704067200, Num 20],
              [Null, Num 7],
              [Stamp 1704240000, Num 5]]\<rparr> ''date'' ''sales'' = [(1704067200, 10), (1704067200, 20), (1704240000, 5)]"
  by (simp add: dated_rows_def cell_at_def cell_value_def)

lemma example_sales_grouped:
  "group_sum [(1704067200, 10), (1704067200, 20), (1704240000, 5)] = [(1704067200, 30), (1704240000, 5)]"
  by (simp add: group_sum_def)

lemma example_sales_resampled:
  "resample_sum Rule_D [(1704067200, 30), (1704240000, 5)] = [(1704067200, 30), (1704153600, 0), (1704240000, 5)]"
  by (simp add: resample_sum_def bucket_def day_of_def label_def midnight_def Let_def)

lemma example_sales_series:
  "build_series \<lparr>columns = [''date'', ''sales''],
      dtypes = [Datetime, Float],
      rows = [[Stamp 1704067200, Num 10],
              [Stamp 1704067200, Num 20],
              [Null, Num 7],
              [Stamp 1704240000, Num 5]]\<rparr> ''date'' ''sales'' Daily
   = Inr ([(1704067200, 30), (1704153600, 0)], [(1704240000, 5)])"
  unfolding build_series_def example_sales_dated example_sales_grouped
  by (simp add: dtype_of_def resample_at_def resample_rule_def example_sales_resampled split_idx_eq)

lemma example_sales_preprocessed:
  "preprocess_data (example_env f) 0 ''date'' ''sales'' Daily
      \<lparr>objects = (\<lambda>_. empty_frame)(0 := example_sales), next_ref = 1, cache = c\<rparr>
   = (Inr ([(1704067200, 30), (1704153600, 0)], [(1704240000, 5)]),
      \<lparr>objects = (\<lambda>_. empty_frame)
         (0 := \<lparr>columns = [''date'', ''sales''],
               dtypes = [Datetime, Float],
               rows = [[Stamp 1704067200, Num 10],
                       [Stamp 1704067200, Num 20],
                       [Null, Num 7],
                       [Stamp 1704240000, Num 5]]\<rparr>), next_ref = 1, cache = c\<rparr>)"
  by (simp add: preprocess_data_def example_sales_cleaned example_sales_series)

lemma example_sales_loaded:
  "load_data_from_url (example_env example_sales) 0 ''u'' empty_state
   = (Inr 0, \<lparr>objects = (\<lambda>_. empty_frame)(0 := example_sales), next_ref = 1,
               cache = (\<lambda>_. None)(''u:raw'' \<mapsto> (0, 0))\<rparr>)"
  by (simp add: load_data_from_url_def cache_get_def cache_set_def generate_key_def example_env_def
      empty_state_def Let_def example_sales_def strip_def is_space_def)

lemma example_sales_cache_hit:
  "load_data_from_url (example_env example_sales) 10 ''u''
      \<lparr>objects = (\<lambda>_. empty_frame)(0 := example_sales), next_ref = 1,
        cache = (\<lambda>_. None)(''u:raw'' \<mapsto> (0, 0))\<rparr>
   = (Inr 0, \<lparr>objects = (\<lambda>_. empty_frame)(0 := example_sales), next_ref = 1,
               cache = (\<lambda>_. None)(''u:raw'' \<mapsto> (0, 0))\<rparr>)"
  by (simp add: load_data_from_url_def cache_get_def generate_key_def example_env_def
      is_expired_def ttl_seconds_def Let_def)


lemma label_step:
  "label Rule_D (k + 1) = label Rule_D k + 86400"
  "label Rule_W (k + 1) = label Rule_W k + 7 * 86400"
  by (simp_all add: label_def midnight_def)

text \<open>
  Witness: four raw rows, two of them on 2024-01-01, one without a date, one on
  2024-01-03. The daily series has the three days, with 30, 0 and 5.
\<close>

theorem preprocess_series_grid_witness:
  "preprocess_data (example_env example_sales) 0 ''date'' ''sales'' Daily
      \<lparr>objects = (\<lambda>_. empty_frame)(0 := example_sales), next_ref = 1, cache = (\<lambda>_. None)\<rparr>
     = (Inr ([(1704067200, 30), (1704153600, 0)], [(1704240000, 5)]),
        \<lparr>objects = (\<lambda>_. empty_frame)
           (0 := \<lparr>columns = [''date'', ''sales''],
                 dtypes = [Datetime, Float],
                 rows = [[Stamp 1704067200, Num 10],
                         [Stamp 1704067200, Num 20],
                         [Null, Num 7],
                         [Stamp 1704240000, Num 5]]\<rparr>),
         next_ref = 1, cache = (\<lambda>_. None)\<rparr>)
   \<and> resample_rule Daily = Some Rule_D
   \<and> map fst ([(1704067200, 30), (1704153600, 0)] @ [(1704240000, 5 :: real)])
       = map (label Rule_D) [19723..19725]
   \<and> sorted_wrt (<) (map fst ([(1704067200 :: int, 30), (1704153600, 0)] @ [(1704240000, 5 :: real)]))"
proof -
  have rule: "resample_rule Daily = Some Rule_D" by (simp add: resample_rule_def)
  have labels: "map (label Rule_D) [19723..19725] = [1704067200, 1704153600, 1704240000]"
    by (simp add: label_def midnight_def)
  note pre = example_sales_preprocessed [of example_sales "\<lambda>_. None"]
  have "sorted_wrt (<) (map fst ([(1704067200 :: int, 30), (1704153600, 0)] @ [(1704240000, 5 :: real)]))"
    using preprocess_series_grid [OF pre rule] by (rule conjunct1)
  moreover have "map fst ([(1704067200, 30), (1704153600, 0)] @ [(1704240000, 5 :: real)])
       = map (label Rule_D) [19723..19725]"
    unfolding labels by simp
  ultimately show ?thesis using pre rule by blast
qed

section \<open>Properties of the pipeline\<close>

lemma iloc_error: "iloc xs i = Inl e \<Longrightarrow> e = IndexError"
  by (auto simp: iloc_def split: if_splits)

lemma collect_error: "collect ms = Inl e \<Longrightarrow> Inl e \<in> set ms"
  by (induction ms) (auto split: sum.splits)

lemma seasonal_naive_error: "seasonal_naive data h 7 = Inl e \<Longrightarrow> e = IndexError"
proof -
  assume "seasonal_naive data h 7 = Inl e"
  then have "Inl e \<in> set (map (seasonal_naive_value data 7) [0..<h])"
    unfolding seasonal_naive_def by (rule collect_error)
  then obtain i where "seasonal_naive_value data 7 i = Inl e" by auto
  then show ?thesis
    by (auto simp: seasonal_naive_value_def Let_def split: if_splits dest: iloc_error)
qed

lemma xgb_error: "xgb_fit_predict lib n data h g = Inl e \<Longrightarrow> e = IndexError"
  by (auto simp: xgb_fit_predict_def bind_exn_def split: sum.splits if_splits dest: iloc_error)

lemma run_model_error:
  "run_model env m data h g = Inl e \<Longrightarrow> e = IndexError \<or> e = UnknownModelType"
  using arima_total [of "as_floats (stats env)" ARIMAForecaster data h True]
  by (cases m) (auto simp: run_model_def bind_exn_def dest: seasonal_naive_error xgb_error)

lemma dict_get_error: "dict_get d k = Inl e \<Longrightarrow> e = KeyError k"
  by (auto simp: dict_get_def split: option.splits)

lemma auto_select_total: "\<exists>r. auto_select_model env train test g = Inr r"
  by (simp add: auto_select_model_def Let_def py_max_items_def bind_exn_def)

lemma format_step_error:
  "format_step train ps h g = Inl e \<Longrightarrow> e = IndexError \<or> e = UnboundLocalError"
  by (cases g) (auto simp: format_step_def bind_exn_def future_dates_def split: sum.splits dest: iloc_error)

lemma forecast_series_error:
  assumes "forecast_series env train test m h g = Inl e"
  shows "\<not> insufficient_data e"
proof -
  obtain r where r: "auto_select_model env train test g = Inr r" using auto_select_total by blast
  define m' where "m' = (if m = Auto then fst r else m)"
  have sel: "(if m = Auto
               then bind_exn (auto_select_model env train test g) (\<lambda>selected. Inr (fst selected))
               else Inr m) = Inr m'"
    by (simp add: m'_def r bind_exn_def)
  show ?thesis
  proof (cases "run_model env m' (map snd train) h g")
    case (Inl e')
    then have "e = e'" using assms sel by (simp add: forecast_series_def bind_exn_def)
    then show ?thesis using run_model_error [OF Inl] by (auto simp: insufficient_data_def)
  next
    case (Inr ps)
    show ?thesis
    proof (cases "format_step train ps h g")
      case (Inl e')
      then have "e = e'" using assms sel Inr by (simp add: forecast_series_def bind_exn_def Let_def)
      then show ?thesis using format_step_error [OF Inl] by (auto simp: insufficient_data_def)
    next
      case fmt: (Inr out)
      then have "dict_get (score_step (map snd train) (map snd test) ps h) ''accuracy'' = Inl e"
        using assms sel Inr by (auto simp: forecast_series_def bind_exn_def Let_def split: sum.splits)
      then show ?thesis using dict_get_error by (fastforce simp: insufficient_data_def)
    qed
  qed
qed

lemma preprocess_error:
  assumes "preprocess_data env df dc vc g st = (Inl e, st')"
  shows "\<not> insufficient_data e"
  using assms
  by (auto simp: preprocess_data_def clean_columns_def detect_date_col_def build_series_def
      bind_exn_def Let_def insufficient_data_def split: sum.splits prod.splits if_splits list.splits)


lemma validate_data_error:
  "validate_data df = Inl e \<Longrightarrow> insufficient_data e"
  by (auto simp: validate_data_def insufficient_data_def split: if_splits)

lemma validate_data_iff:
  "(\<exists>e. validate_data df = Inl e) \<longleftrightarrow> length (rows df) < 10 \<or> columns df = []"
  by (auto simp: validate_data_def)

text \<open>
  C2, as the code has it. \<^verbatim>\<open>run_forecast\<close> fails with one of the two errors of
  \<^verbatim>\<open>validate_data\<close> exactly when the frame it has loaded has fewer than 10 rows (or no
  column): the rows are counted as loaded, before the preprocessor drops any, and no
  later stage reports too little data.
\<close>

theorem insufficient_data_iff_raw_rows:
  "(\<exists>e. fst (run_forecast env now url model_type horizon g st) = Inl e \<and> insufficient_data e)
   \<longleftrightarrow> (\<exists>df st1. load_data_from_url env now url st = (Inr df, st1)
                \<and> (length (rows (objects st1 df)) < 10 \<or> columns (objects st1 df) = []))"
proof (cases "load_data_from_url env now url st")
  case (Pair r st1)
  show ?thesis
  proof (cases r)
    case (Inl e)
    have "e = External x \<Longrightarrow> \<not> insufficient_data e" for x by (simp add: insufficient_data_def)
    moreover obtain x where "e = External x"
      using Pair Inl
      by (auto simp: load_data_from_url_def Let_def split: prod.splits option.splits sum.splits)
    ultimately have "\<not> insufficient_data e" by blast
    then show ?thesis using Pair Inl by (simp add: run_forecast_def)
  next
    case (Inr df)
    show ?thesis
    proof (cases "validate_data (objects st1 df)")
      case (Inl e)
      then have "fst (run_forecast env now url model_type horizon g st) = Inl e"
        using Pair Inr by (simp add: run_forecast_def)
      moreover have "insufficient_data e" using Inl by (rule validate_data_error)
      moreover have "length (rows (objects st1 df)) < 10 \<or> columns (objects st1 df) = []"
        using Inl validate_data_iff by blast
      ultimately show ?thesis using Pair Inr by auto
    next
      case ok: (Inr b)
      then have small: "\<not> (length (rows (objects st1 df)) < 10 \<or> columns (objects st1 df) = [])"
        using validate_data_iff [of "objects st1 df"] by auto
      obtain r2 st2 where pre: "preprocess_data env df ''date'' ''sales'' g st1 = (r2, st2)"
        by (cases "preprocess_data env df ''date'' ''sales'' g st1") auto
      have "\<not> (\<exists>e. fst (run_forecast env now url model_type horizon g st) = Inl e \<and> insufficient_data e)"
      proof (cases r2)
        case (Inl e)
        then have "fst (run_forecast env now url model_type horizon g st) = Inl e"
          using Pair Inr ok pre by (simp add: run_forecast_def)
        moreover have "\<not> insufficient_data e" using pre Inl preprocess_error by blast
        ultimately show ?thesis by auto
      next
        case split: (Inr s)
        obtain train test where s: "s = (train, test)" by (cases s) auto
        have "fst (run_forecast env now url model_type horizon g st)
            = forecast_series env train test model_type horizon g"
          using Pair Inr ok pre split s by (simp add: run_forecast_def)
        then show ?thesis
          using forecast_series_error [of env train test model_type horizon g] by auto
      qed
      then show ?thesis using Pair Inr small by auto
    qed
  qed
qed


lemma ten_rows_loaded:
  "load_data_from_url (example_env example_ten_rows) 0 ''u'' empty_state
   = (Inr 0, \<lparr>objects = (\<lambda>_. empty_frame)(0 := example_ten_rows), next_ref = 1,
               cache = (\<lambda>_. None)(''u:raw'' \<mapsto> (0, 0))\<rparr>)"
  by (simp add: load_data_from_url_def cache_get_def cache_set_def generate_key_def example_env_def
      empty_state_def Let_def example_ten_rows_def strip_def is_space_def)

lemma ten_rows_valid: "validate_data example_ten_rows = Inr True"
  by (simp add: validate_data_def example_ten_rows_def)

lemma ten_rows_cleaned:
  "clean_columns (example_env f) example_ten_rows ''date'' ''sales''
   = Inr (''date'', ''sales'',
       \<lparr>columns = [''date'', ''sales''],
        dtypes = [Datetime, Float],
        rows = [[Stamp 1704067200, Num 100], [Stamp 1704153600, Num 100],
                [Stamp 1704240000, Num 100], [Stamp 1704326400, Num 100],
                [Stamp 1704412800, Num 100], [Null, Num 100],
                [Stamp 1704499200, Num 100], [Stamp 1704585600, Num 100],
                [Stamp 1704672000, Num 100], [Stamp 1704758400, Num 100]]\<rparr>)"
  by (simp add: clean_columns_def detect_date_col_def detect_value_col_def example_ten_rows_def
      bind_exn_def dtype_of_def assign_def column_def cell_at_def parse_date_def example_env_def
      example_dates_def Let_def)

lemma ten_rows_dated:
  "dated_rows
       \<lparr>columns = [''date'', ''sales''],
        dtypes = [Datetime, Float],
        rows = [[Stamp 1704067200, Num 100], [Stamp 1704153600, Num 100],
                [Stamp 1704240000, Num 100], [Stamp 1704326400, Num 100],
                [Stamp 1704412800, Num 100], [Null, Num 100],
                [Stamp 1704499200, Num 100], [Stamp 1704585600, Num 100],
                [Stamp 1704672000, Num 100], [Stamp 1704758400, Num 100]]\<rparr> ''date'' ''sales''
   = [(1704067200, 100), (1704153600, 100), (1704240000, 100), (1704326400, 100),
      (1704412800, 100), (1704499200, 100), (1704585600, 100), (1704672000, 100),
      (1704758400, 100)]"
  by (simp add: dated_rows_def cell_at_def cell_value_def)

lemma ten_rows_grouped:
  "group_sum [(1704067200, 100), (1704153600, 100), (1704240000, 100), (1704326400, 100),
      (1704412800, 100), (1704499200, 100), (1704585600, 100), (1704672000, 100),
      (1704758400, 100)]
   = [(1704067200, 100), (1704153600, 100), (1704240000, 100), (1704326400, 100),
      (1704412800, 100), (1704499200, 100), (1704585600, 100), (1704672000, 100),
      (1704758400, 100)]"
  by (simp add: group_sum_def)

lemma ten_rows_resampled:
  "resample_sum Rule_D [(1704067200, 100), (1704153600, 100), (1704240000, 100), (1704326400, 100),
      (1704412800, 100), (1704499200, 100), (1704585600, 100), (1704672000, 100),
      (1704758400, 100)]
   = [(1704067200, 100), (1704153600, 100), (1704240000, 100), (1704326400, 100),
      (1704412800, 100), (1704499200, 100), (1704585600, 100), (1704672000, 100),
      (1704758400, 100)]"
  by (simp add: resample_sum_def bucket_def day_of_def label_def midnight_def Let_def)


lemma ten_rows_series:
  "build_series
       \<lparr>columns = [''date'', ''sales''],
        dtypes = [Datetime, Float],
        rows = [[Stamp 1704067200, Num 100], [Stamp 1704153600, Num 100],
                [Stamp 1704240000, Num 100], [Stamp 1704326400, Num 100],
                [Stamp 1704412800, Num 100], [Null, Num 100],
                [Stamp 1704499200, Num 100], [Stamp 1704585600, Num 100],
                [Stamp 1704672000, Num 100], [Stamp 1704758400, Num 100]]\<rparr> ''date'' ''sales'' Daily
   = Inr ([(1704067200, 100), (1704153600, 100), (1704240000, 100), (1704326400, 100),
           (1704412800, 100), (1704499200, 100), (1704585600, 100)],
          [(1704672000, 100), (1704758400, 100)])"
  unfolding build_series_def ten_rows_dated ten_rows_grouped
  by (simp add: dtype_of_def resample_at_def resample_rule_def ten_rows_resampled split_idx_eq)

lemma ten_rows_baseline:
  "run_model env Baseline [100, 100, 100, 100, 100, 100, 100] 2 Daily = Inr [100, 100]"
  by (simp add: run_model_def seasonal_naive_def seasonal_naive_value_def iloc_def Let_def
      numeral_2_eq_2)

lemma ten_rows_metrics:
  "score_step [100, 100, 100, 100, 100, 100, 100] [100, 100] [100, 100] 2
   = [(''mae'', Fl 0), (''rmse'', Fl 0), (''mape'', Fl 0), (''smape'', Fl 0), (''r2'', Fl 0),
      (''rmsse'', Fl 0), (''accuracy'', Fl 100)]"
  by (simp add: score_step_def calculate_metrics_def Let_def np_mean_def mean_def py_max_def
      py_round_0 py_round_100)

lemma ten_rows_future:
  "future_dates Daily 1704585600 2 = Inr [1704672000, 1704758400]"
  by code_simp

lemma jan_8: "strftime_ymd 1704672000 = (2024, 1, 8)" by code_simp
lemma jan_9: "strftime_ymd 1704758400 = (2024, 1, 9)" by code_simp

lemma ten_rows_format:
  "format_step [(1704067200, 100), (1704153600, 100), (1704240000, 100), (1704326400, 100),
           (1704412800, 100), (1704499200, 100), (1704585600, 100)] [100, 100] 2 Daily
   = Inr [((2024, 1, 8), 100), ((2024, 1, 9), 100)]"
proof -
  have last: "iloc (map fst [(1704067200, 100::real), (1704153600, 100), (1704240000, 100),
      (1704326400, 100), (1704412800, 100), (1704499200, 100), (1704585600, 100)]) (- 1)
      = Inr 1704585600"
    by (simp add: iloc_def)
  show ?thesis
    unfolding format_step_def last by (simp add: bind_exn_def ten_rows_future jan_8 jan_9)
qed

lemma ten_rows_forecast:
  "forecast_series env [(1704067200, 100), (1704153600, 100), (1704240000, 100), (1704326400, 100),
           (1704412800, 100), (1704499200, 100), (1704585600, 100)]
          [(1704672000, 100), (1704758400, 100)] Baseline 2 Daily
   = Inr \<lparr>result_predictions = [((2024, 1, 8), 100), ((2024, 1, 9), 100)],
          result_metrics = [(''mae'', Fl 0), (''rmse'', Fl 0), (''mape'', Fl 0), (''smape'', Fl 0),
                            (''r2'', Fl 0), (''rmsse'', Fl 0), (''accuracy'', Fl 100)]\<rparr>"
proof -
  have vals: "map snd [(1704067200::int, 100::real), (1704153600, 100), (1704240000, 100),
      (1704326400, 100), (1704412800, 100), (1704499200, 100), (1704585600, 100)]
      = [100, 100, 100, 100, 100, 100, 100]"
     "map snd [(1704672000::int, 100::real), (1704758400, 100)] = [100, 100]"
    by simp_all
  show ?thesis
    unfolding forecast_series_def vals
    by (simp add: bind_exn_def ten_rows_baseline ten_rows_metrics ten_rows_format dict_get_def)
qed

lemma ten_rows_dated_count:
  "length (filter (\<lambda>row. to_datetime (example_env example_ten_rows) (cell_at row 0) \<noteq> None)
             (rows example_ten_rows)) = 9"
  by (simp add: example_ten_rows_def example_env_def example_dates_def cell_at_def)

text \<open>
  C2 as stated fails: of these ten raw rows nine have a date that can be read, so nine
  rows survive the cleaning, and the pipeline returns a forecast.
\<close>

theorem ten_raw_rows_nine_dated:
  "length (rows example_ten_rows) = 10
   \<and> length (filter (\<lambda>row. to_datetime (example_env example_ten_rows) (cell_at row 0) \<noteq> None)
                (rows example_ten_rows)) = 9
   \<and> fst (run_forecast (example_env example_ten_rows) 0 ''u'' Baseline 2 Daily empty_state)
       = Inr \<lparr>result_predictions = [((2024, 1, 8), 100), ((2024, 1, 9), 100)],
              result_metrics = [(''mae'', Fl 0), (''rmse'', Fl 0), (''mape'', Fl 0),
                                (''smape'', Fl 0), (''r2'', Fl 0), (''rmsse'', Fl 0),
                                (''accuracy'', Fl 100)]\<rparr>"
proof -
  have "fst (run_forecast (example_env example_ten_rows) 0 ''u'' Baseline 2 Daily empty_state)
       = Inr \<lparr>result_predictions = [((2024, 1, 8), 100), ((2024, 1, 9), 100)],
              result_metrics = [(''mae'', Fl 0), (''rmse'', Fl 0), (''mape'', Fl 0),
                                (''smape'', Fl 0), (''r2'', Fl 0), (''rmsse'', Fl 0),
                                (''accuracy'', Fl 100)]\<rparr>"
    by (simp add: run_forecast_def ten_rows_loaded ten_rows_valid preprocess_data_def
        ten_rows_cleaned ten_rows_series ten_rows_forecast)
  moreover have "length (rows example_ten_rows) = 10" by (simp add: example_ten_rows_def)
  ultimately show ?thesis using ten_rows_dated_count by simp
qed

lemma four_rows_run:
  "fst (run_forecast (example_env example_sales) 0 ''u'' Baseline 2 Daily empty_state)
   = Inl DatasetTooSmall"
  unfolding run_forecast_def example_sales_loaded
  by (simp add: validate_data_def example_sales_def)

text \<open>Witness: a table of four rows is refused.\<close>

theorem insufficient_data_witness:
  "fst (run_forecast (example_env example_sales) 0 ''u'' Baseline 2 Daily empty_state)
     = Inl DatasetTooSmall
   \<and> insufficient_data DatasetTooSmall
   \<and> length (rows example_sales) = 4"
  using insufficient_data_iff_raw_rows [of "example_env example_sales" 0 "''u''" Baseline 2 Daily
      empty_state] four_rows_run
  by (simp add: insufficient_data_def example_sales_def)


lemma currency_loaded:
  "load_data_from_url (example_env example_currency) 0 ''u'' empty_state
   = (Inr 0, \<lparr>objects = (\<lambda>_. empty_frame)(0 := example_currency), next_ref = 1,
               cache = (\<lambda>_. None)(''u:raw'' \<mapsto> (0, 0))\<rparr>)"
  by (simp add: load_data_from_url_def cache_get_def cache_set_def generate_key_def example_env_def
      empty_state_def Let_def example_currency_def strip_def is_space_def)

lemma currency_cache_hit:
  "load_data_from_url (example_env example_currency) 10 ''u''
      \<lparr>objects = (\<lambda>_. empty_frame)(0 := example_currency), next_ref = 1,
        cache = (\<lambda>_. None)(''u:raw'' \<mapsto> (0, 0))\<rparr>
   = (Inr 0, \<lparr>objects = (\<lambda>_. empty_frame)(0 := example_currency), next_ref = 1,
               cache = (\<lambda>_. None)(''u:raw'' \<mapsto> (0, 0))\<rparr>)"
  by (simp add: load_data_from_url_def cache_get_def generate_key_def example_env_def
      is_expired_def ttl_seconds_def Let_def)

lemma currency_cleaned:
  "clean_columns (example_env f) example_currency ''date'' ''sales''
   = Inr (''date'', ''sales'',
       \<lparr>columns = [''date'', ''sales''],
        dtypes = [Datetime, Float],
        rows = [[Stamp 1704067200, Num 1200], [Null, Num 5]]\<rparr>)"
  by (simp add: clean_columns_def detect_date_col_def detect_value_col_def example_currency_def
      bind_exn_def dtype_of_def assign_def column_def cell_at_def parse_date_def clean_currency_def
      example_env_def example_dates_def example_numbers_def strip_def is_space_def Let_def)

lemma currency_series:
  "build_series
       \<lparr>columns = [''date'', ''sales''],
        dtypes = [Datetime, Float],
        rows = [[Stamp 1704067200, Num 1200], [Null, Num 5]]\<rparr> ''date'' ''sales'' Daily
   = Inr ([], [(1704067200, 1200)])"
  by (simp add: build_series_def dtype_of_def dated_rows_def cell_at_def cell_value_def group_sum_def
      resample_at_def resample_rule_def resample_sum_def bucket_def day_of_def label_def
      midnight_def Let_def split_idx_eq)

lemma currency_preprocessed:
  "preprocess_data (example_env example_currency) 0 ''date'' ''sales'' Daily
      \<lparr>objects = (\<lambda>_. empty_frame)(0 := example_currency), next_ref = 1, cache = c\<rparr>
   = (Inr ([], [(1704067200, 1200)]),
      \<lparr>objects = (\<lambda>_. empty_frame)
         (0 := \<lparr>columns = [''date'', ''sales''],
               dtypes = [Datetime, Float],
               rows = [[Stamp 1704067200, Num 1200], [Null, Num 5]]\<rparr>),
       next_ref = 1, cache = c\<rparr>)"
  by (simp add: preprocess_data_def currency_cleaned currency_series)

text \<open>
  C7 on the code. A table is fetched and stored in the cache at time 0; at time 10 a
  second load hits the cache and returns the same reference, and the preprocessing
  step runs on it. The cache entry still names the object, and the object now has the
  parsed date column and the cleaned value column: it is no longer the table as stored.
\<close>

theorem preprocessing_overwrites_cached_frame:
  "(case load_data_from_url (example_env example_currency) 0 ''u'' empty_state of
      (r1, st1) \<Rightarrow>
        (case load_data_from_url (example_env example_currency) 10 ''u'' st1 of
           (r2, st2) \<Rightarrow>
             (case preprocess_data (example_env example_currency) 0 ''date'' ''sales'' Daily st2 of
                (r3, st3) \<Rightarrow>
                  r1 = Inr 0 \<and> cache st1 ''u:raw'' = Some (0, 0)
                  \<and> objects st1 0 = example_currency
                  \<and> r2 = Inr 0 \<and> st2 = st1
                  \<and> r3 = Inr ([], [(1704067200, 1200)])
                  \<and> cache st3 ''u:raw'' = Some (0, 0)
                  \<and> objects st3 0 =
                       \<lparr>columns = [''date'', ''sales''],
                        dtypes = [Datetime, Float],
                        rows = [[Stamp 1704067200, Num 1200], [Null, Num 5]]\<rparr>
                  \<and> objects st3 0 \<noteq> example_currency)))"
  unfolding currency_loaded prod.case currency_cache_hit currency_preprocessed
  by (simp add: example_currency_def)


end
